theory Spec2Isabelle
  imports Complex_Main "HOL-Library.AList" "HOL-Library.Log_Nat"
begin

section \<open>mininab: a shallow embedding of \<^verbatim>\<open>mininab.py\<close>\<close>

text \<open>
  The ledger of \<^verbatim>\<open>mininab.py\<close> is a Python dictionary of dictionaries that every
  command mutates in place. Here every command is a function from the state before the
  call to the state after it, together with what the command printed; a raised exception
  is the left summand of the result.

  Amounts are Python \<^verbatim>\<open>float\<close>s in the source. The commands are embedded over an arbitrary
  amount type \<open>'a\<close> that only has the operations the source uses (\<open>0\<close>, \<open>+\<close>, \<open>-\<close>,
  unary minus, \<open><\<close>), with no algebraic law assumed: what is proved at that generality
  holds for binary floating point as well as for exact arithmetic. The type \<open>pyfloat\<close>
  further down instantiates the operations with IEEE binary64 rounding.
\<close>

subsection \<open>Exceptions\<close>

datatype py_error = ValueError | NameError | AttributeError | KeyError

subsection \<open>Dictionaries\<close>

text \<open>
  A Python \<^verbatim>\<open>dict\<close> keeps its keys in insertion order, and the order is observable
  (loops over the categories, printed listings), so a dictionary is an association list.
  \<^verbatim>\<open>d[k] = v\<close> is \<^const>\<open>AList.update\<close>: it replaces the value of an existing key in
  place and appends a new key at the end.
\<close>

definition has_key :: "('k \<times> 'v) list \<Rightarrow> 'k \<Rightarrow> bool" where
  \<comment> \<open>\<^verbatim>\<open>k in d\<close>\<close>
  "has_key d k = (map_of d k \<noteq> None)"

definition dict_get :: "('k \<times> 'v) list \<Rightarrow> 'k \<Rightarrow> 'v \<Rightarrow> 'v" where
  \<comment> \<open>\<^verbatim>\<open>d.get(k, dflt)\<close>; also the value that \<^verbatim>\<open>d.setdefault(k, dflt)\<close> returns\<close>
  "dict_get d k dflt = (case map_of d k of None \<Rightarrow> dflt | Some v \<Rightarrow> v)"

definition setdefault :: "('k \<times> 'v) list \<Rightarrow> 'k \<Rightarrow> 'v \<Rightarrow> ('k \<times> 'v) list" where
  \<comment> \<open>the dictionary after \<^verbatim>\<open>d.setdefault(k, dflt)\<close>\<close>
  "setdefault d k dflt = (case map_of d k of None \<Rightarrow> d @ [(k, dflt)] | Some v \<Rightarrow> d)"

subsection \<open>Month keys: \<^verbatim>\<open>parse_month\<close>\<close>

text \<open>
  \<^verbatim>\<open>parse_month\<close> strips the text and hands it to \<^verbatim>\<open>datetime.strptime\<close> with the formats
  \<^verbatim>\<open>"%b %Y"\<close>, \<^verbatim>\<open>"%B %Y"\<close>, \<^verbatim>\<open>"%Y-%m"\<close>, \<^verbatim>\<open>"%Y/%m"\<close> in this order. The library function
  is modelled for the directives these formats use, as CPython's \<^verbatim>\<open>_strptime\<close> matches
  them in the C/English locale: the format becomes a regular expression that is matched
  case-insensitively from the start of the text and must consume all of it;
  \<^verbatim>\<open>%Y\<close> is \<^verbatim>\<open>\d\d\d\d\<close>, \<^verbatim>\<open>%m\<close> is \<^verbatim>\<open>1[0-2]|0[1-9]|[1-9]\<close>, \<^verbatim>\<open>%b\<close> and \<^verbatim>\<open>%B\<close> are the
  alternatives of the month names, a blank in the format is \<^verbatim>\<open>\s+\<close>.
  Strings are lists of 8-bit characters, so the model covers texts of code points below 256.
\<close>

definition is_space :: "char \<Rightarrow> bool" where
  \<comment> \<open>\<^verbatim>\<open>str.isspace\<close> and the regular expression class \<^verbatim>\<open>\s\<close>, on code points below 256\<close>
  "is_space c = (c \<in> set [CHR 0x09, CHR 0x0A, CHR 0x0B, CHR 0x0C, CHR 0x0D,
                            CHR 0x1C, CHR 0x1D, CHR 0x1E, CHR 0x1F, CHR 0x20,
                            CHR 0x85, CHR 0xA0])"

definition strip :: "string \<Rightarrow> string" where
  "strip s = rev (dropWhile is_space (rev (dropWhile is_space s)))"

definition lower_char :: "char \<Rightarrow> char" where
  \<comment> \<open>case folding of the letters A to Z, which is all that matching the English month
      names without regard to case needs\<close>
  "lower_char c =
     (case map_of (zip ''ABCDEFGHIJKLMNOPQRSTUVWXYZ'' ''abcdefghijklmnopqrstuvwxyz'') c of
        None \<Rightarrow> c | Some l \<Rightarrow> l)"

definition is_digit :: "char \<Rightarrow> bool" where
  "is_digit c = (c \<in> set ''0123456789'')"

definition digit_val :: "char \<Rightarrow> nat" where
  "digit_val c = of_char c - 48"

definition digits_val :: "string \<Rightarrow> nat" where
  \<comment> \<open>\<^verbatim>\<open>int(s)\<close> on a string of decimal digits\<close>
  "digits_val s = foldl (\<lambda>n c. 10 * n + digit_val c) 0 s"

definition month_abbr :: "string list" where
  "month_abbr = [''jan'', ''feb'', ''mar'', ''apr'', ''may'', ''jun'',
                 ''jul'', ''aug'', ''sep'', ''oct'', ''nov'', ''dec'']"

definition month_abbr_text :: "string list" where
  \<comment> \<open>the abbreviated names as \<^verbatim>\<open>%b\<close> prints them\<close>
  "month_abbr_text = [''Jan'', ''Feb'', ''Mar'', ''Apr'', ''May'', ''Jun'',
                      ''Jul'', ''Aug'', ''Sep'', ''Oct'', ''Nov'', ''Dec'']"

definition month_name_text :: "string list" where
  \<comment> \<open>the full names as \<^verbatim>\<open>%B\<close> prints them\<close>
  "month_name_text = [''January'', ''February'', ''March'', ''April'', ''May'', ''June'',
                      ''July'', ''August'', ''September'', ''October'', ''November'',
                      ''December'']"

definition month_name :: "string list" where
  "month_name = [''january'', ''february'', ''march'', ''april'', ''may'', ''june'',
                 ''july'', ''august'', ''september'', ''october'', ''november'',
                 ''december'']"

datatype directive = Pct_b | Pct_B | Pct_Y | Pct_m | Whitespace | Literal char

fun match_name :: "string list \<Rightarrow> nat \<Rightarrow> string \<Rightarrow> (nat \<times> string) option" where
  \<comment> \<open>the alternatives of the month names; no name is a prefix of another one, so at
      most one alternative matches\<close>
  "match_name [] i s = None"
| "match_name (n # ns) i s =
     (if map lower_char (take (length n) s) = n then Some (i, drop (length n) s)
      else match_name ns (Suc i) s)"

definition match_m :: "string \<Rightarrow> (nat \<times> string) option" where
  \<comment> \<open>\<^verbatim>\<open>1[0-2]|0[1-9]|[1-9]\<close>: the first alternative that matches; \<^verbatim>\<open>%m\<close> ends each
      format that has it, so the matcher never comes back for another alternative\<close>
  "match_m s =
     (case s of
        [] \<Rightarrow> None
      | [c1] \<Rightarrow> if c1 \<in> set ''123456789'' then Some (digit_val c1, []) else None
      | c1 # c2 # r \<Rightarrow>
          if c1 = CHR ''1'' \<and> c2 \<in> set ''012'' then Some (10 + digit_val c2, r)
          else if c1 = CHR ''0'' \<and> c2 \<in> set ''123456789'' then Some (digit_val c2, r)
          else if c1 \<in> set ''123456789'' then Some (digit_val c1, c2 # r)
          else None)"

fun match_fmt :: "directive list \<Rightarrow> string \<Rightarrow> nat \<times> nat \<Rightarrow> (nat \<times> nat) option" where
  \<comment> \<open>the pair is (year, month) as found so far; at the end of the format nothing of the
      text may remain (\<^verbatim>\<open>unconverted data remains\<close>)\<close>
  "match_fmt [] s ym = (if s = [] then Some ym else None)"
| "match_fmt (Pct_b # ds) s (y, m) =
     (case match_name month_abbr 1 s of
        None \<Rightarrow> None | Some (i, r) \<Rightarrow> match_fmt ds r (y, i))"
| "match_fmt (Pct_B # ds) s (y, m) =
     (case match_name month_name 1 s of
        None \<Rightarrow> None | Some (i, r) \<Rightarrow> match_fmt ds r (y, i))"
| "match_fmt (Pct_Y # ds) s (y, m) =
     (if 4 \<le> length s \<and> list_all is_digit (take 4 s)
      then match_fmt ds (drop 4 s) (digits_val (take 4 s), m) else None)"
| "match_fmt (Pct_m # ds) s (y, m) =
     (case match_m s of None \<Rightarrow> None | Some (i, r) \<Rightarrow> match_fmt ds r (y, i))"
| "match_fmt (Whitespace # ds) s ym =
     (case s of [] \<Rightarrow> None
      | c # cs \<Rightarrow> if is_space c then match_fmt ds (dropWhile is_space cs) ym else None)"
| "match_fmt (Literal l # ds) s ym =
     (case s of [] \<Rightarrow> None | c # cs \<Rightarrow> if c = l then match_fmt ds cs ym else None)"

definition strptime :: "string \<Rightarrow> directive list \<Rightarrow> py_error + (nat \<times> nat)" where
  \<comment> \<open>year and month of \<^verbatim>\<open>datetime.strptime(text, fmt)\<close>; the defaults are 1900 and 1, and
      a \<^verbatim>\<open>datetime\<close> has no year 0\<close>
  "strptime text fmt =
     (case match_fmt fmt text (1900, 1) of
        None \<Rightarrow> Inl ValueError
      | Some (y, m) \<Rightarrow> if y < 1 then Inl ValueError else Inr (y, m))"

definition digit_char :: "nat \<Rightarrow> char" where
  \<comment> \<open>the character of the last decimal digit of \<open>d\<close>\<close>
  "digit_char d = ''0123456789'' ! (d mod 10)"

definition year4 :: "nat \<Rightarrow> string" where
  "year4 y = map digit_char [y div 1000 mod 10, y div 100 mod 10, y div 10 mod 10, y mod 10]"

definition month2 :: "nat \<Rightarrow> string" where
  "month2 m = map digit_char [m div 10 mod 10, m mod 10]"

fun show_nat :: "nat \<Rightarrow> string" where
  \<comment> \<open>a number in decimal, without padding\<close>
  "show_nat n = (if n < 10 then [digit_char n] else show_nat (n div 10) @ [digit_char n])"

declare show_nat.simps [simp del]

definition strftime_ym :: "nat \<times> nat \<Rightarrow> string" where
  \<comment> \<open>\<^verbatim>\<open>.strftime("%Y-%m")\<close>: the C library writes the year of \<^verbatim>\<open>%Y\<close> without padding (three
      digits for the year 999) and the month of \<^verbatim>\<open>%m\<close> with two digits\<close>
  "strftime_ym ym = show_nat (fst ym) @ ''-'' @ month2 (snd ym)"

definition month_formats :: "directive list list" where
  \<comment> \<open>\<^verbatim>\<open>["%b %Y", "%B %Y", "%Y-%m", "%Y/%m"]\<close>\<close>
  "month_formats =
     [[Pct_b, Whitespace, Pct_Y], [Pct_B, Whitespace, Pct_Y],
      [Pct_Y, Literal CHR ''-'', Pct_m], [Pct_Y, Literal CHR ''/'', Pct_m]]"

fun try_formats :: "directive list list \<Rightarrow> string \<Rightarrow> py_error + string" where
  "try_formats [] text = Inl ValueError"
| "try_formats (fmt # fmts) text =
     (case strptime text fmt of
        Inr ym \<Rightarrow> Inr (strftime_ym ym)
      | Inl e \<Rightarrow> try_formats fmts text)"

definition parse_month :: "string \<Rightarrow> py_error + string" where
  "parse_month text = try_formats month_formats (strip text)"

subsection \<open>The ledger state\<close>

text \<open>
  The state is the dictionary that \<^verbatim>\<open>load_state\<close> builds, with its five keys;
  a category-month entry is the dictionary \<^verbatim>\<open>{"budgeted", "activity", "available"}\<close>,
  a month summary is a dictionary that has the key \<^verbatim>\<open>"ready_to_assign"\<close> or is empty,
  a category's value is \<^verbatim>\<open>{"parent": p}\<close> and an account's is \<^verbatim>\<open>{"type": t}\<close>.
\<close>

record 'a cat_entry =
  budgeted :: 'a
  activity :: 'a
  available :: 'a

record 'a txn =
  month :: string
  account :: "string option"
  category :: "string option"
  amount :: 'a

record 'a state =
  accounts :: "(string \<times> string) list"
  categories :: "(string \<times> string option) list"
  month_summary :: "(string \<times> 'a option) list"
  category_month :: "(string \<times> (string \<times> 'a cat_entry) list) list"
  transactions :: "'a txn list"

definition fresh_state :: "'a state" where
  \<comment> \<open>the dictionary literal of \<^verbatim>\<open>load_state\<close>\<close>
  "fresh_state =
     \<lparr>accounts = [], categories = [], month_summary = [], category_month = [],
      transactions = []\<rparr>"

definition load_state :: "'a state option \<Rightarrow> py_error + 'a state" where
  \<comment> \<open>The argument is the content of the state file, if there is one. \<^verbatim>\<open>DATA\<close> is the
      string \<^verbatim>\<open>"mininab.json"\<close>, and a \<^verbatim>\<open>str\<close> has no attribute \<^verbatim>\<open>exists\<close>: the test
      \<^verbatim>\<open>DATA.exists()\<close> raises before the file is looked at.\<close>
  "load_state file = Inl AttributeError"

definition zero_entry :: "'a::zero cat_entry" where
  "zero_entry = \<lparr>budgeted = 0, activity = 0, available = 0\<rparr>"

definition get_cat_entry :: "'a::zero state \<Rightarrow> string \<Rightarrow> string \<Rightarrow> 'a cat_entry \<times> 'a state" where
  \<comment> \<open>the entry that is returned, and the state with the month and the entry created\<close>
  "get_cat_entry s m cat =
     (let cm = dict_get (category_month s) m [];
          cm' = setdefault cm cat zero_entry
      in (dict_get cm cat zero_entry,
          s\<lparr>category_month := AList.update m cm' (setdefault (category_month s) m [])\<rparr>))"

definition put_cat_entry :: "'a state \<Rightarrow> string \<Rightarrow> string \<Rightarrow> 'a cat_entry \<Rightarrow> 'a state" where
  \<comment> \<open>an assignment to a field of the entry that \<^verbatim>\<open>get_cat_entry\<close> returned: the entry is
      the object stored in the state, so the state sees the new value\<close>
  "put_cat_entry s m cat e =
     s\<lparr>category_month :=
         AList.update m (AList.update cat e (dict_get (category_month s) m []))
           (category_month s)\<rparr>"

definition entry_at :: "'a state \<Rightarrow> string \<Rightarrow> string \<Rightarrow> 'a cat_entry option" where
  \<comment> \<open>reading \<^verbatim>\<open>state["category_month"][m][cat]\<close>, if it is there\<close>
  "entry_at s m cat =
     (case map_of (category_month s) m of None \<Rightarrow> None | Some cm \<Rightarrow> map_of cm cat)"

subsection \<open>What a command prints\<close>

datatype 'a message =
    Type_must_be_bank_or_credit
  | Account_already_exists string
  | Account_added string string
  | Category_added string
  | Category_already_exists string
  | TBB_set string 'a
  | Category_not_found string
  | Budgeted 'a string string
  | Account_not_found string
  | Spent 'a string string string
  | Both_accounts_must_exist
  | Transferred 'a string string string
  | Rolled_forward string string 'a

type_synonym 'a outcome = "py_error + ('a message list \<times> 'a state)"

subsection \<open>Commands\<close>

definition cmd_acc :: "'a state \<Rightarrow> string \<Rightarrow> string \<Rightarrow> 'a outcome" where
  "cmd_acc s name typ =
     (if typ \<notin> set [''bank'', ''credit''] then Inr ([Type_must_be_bank_or_credit], s)
      else if has_key (accounts s) name then Inr ([Account_already_exists name], s)
      else Inr ([Account_added name typ],
                s\<lparr>accounts := AList.update name typ (accounts s)\<rparr>))"

fun split_on :: "char \<Rightarrow> string \<Rightarrow> string list" where
  \<comment> \<open>\<^verbatim>\<open>spec.split(':')\<close>: always at least one part\<close>
  "split_on sep [] = [[]]"
| "split_on sep (c # cs) =
     (if c = sep then [] # split_on sep cs
      else (case split_on sep cs of [] \<Rightarrow> [[c]] | p # ps \<Rightarrow> (c # p) # ps))"

fun cat_loop ::
  "(string \<times> string option) list \<Rightarrow> 'a message list \<Rightarrow> string \<Rightarrow> string option \<Rightarrow>
   nat \<Rightarrow> nat \<Rightarrow> string list \<Rightarrow> (string \<times> string option) list \<times> 'a message list" where
  \<comment> \<open>the loop of \<^verbatim>\<open>cmd_cat\<close> from index \<open>i\<close> on, over the parts that remain; \<open>n\<close> is
      \<^verbatim>\<open>len(parts)\<close>\<close>
  "cat_loop cats out full_path parent_path i n [] = (cats, out)"
| "cat_loop cats out full_path parent_path i n (part # parts) =
     (let full_path1 = (if 0 < i then full_path @ '':'' else full_path) @ part in
      if \<not> has_key cats full_path1
      then cat_loop (AList.update full_path1 parent_path cats)
             (out @ [Category_added full_path1]) full_path1 (Some full_path1) (Suc i) n parts
      else if i = n - 1
      then cat_loop cats (out @ [Category_already_exists full_path1])
             full_path1 (Some full_path1) (Suc i) n parts
      else cat_loop cats out full_path1 (Some full_path1) (Suc i) n parts)"

definition cmd_cat :: "'a state \<Rightarrow> string \<Rightarrow> 'a outcome" where
  "cmd_cat s spec =
     (let parts = map strip (split_on CHR '':'' spec);
          (cats, out) = cat_loop (categories s) [] [] None 0 (length parts) parts
      in Inr (out, s\<lparr>categories := cats\<rparr>))"

definition cmd_tbb :: "('a \<Rightarrow> 'a) \<Rightarrow> 'a state \<Rightarrow> string \<Rightarrow> 'a \<Rightarrow> 'a outcome" where
  \<comment> \<open>\<open>round2\<close> is Python's \<^verbatim>\<open>round(\<cdot>, 2)\<close> on the amount type\<close>
  "cmd_tbb round2 s mon amt =
     (case parse_month mon of
        Inl e \<Rightarrow> Inl e
      | Inr m \<Rightarrow>
          Inr ([TBB_set m amt],
               s\<lparr>month_summary :=
                   AList.update m (Some (round2 amt)) (setdefault (month_summary s) m None)\<rparr>))"

definition cmd_bud :: "'a::{zero,plus} state \<Rightarrow> string \<Rightarrow> string \<Rightarrow> 'a \<Rightarrow> 'a outcome" where
  "cmd_bud s mon cat amt =
     (case parse_month mon of
        Inl e \<Rightarrow> Inl e
      | Inr m \<Rightarrow>
          if \<not> has_key (categories s) cat then Inr ([Category_not_found cat], s)
          else
            let (entry, s1) = get_cat_entry s m cat;
                entry1 = entry\<lparr>budgeted := budgeted entry + amt\<rparr>;
                entry2 = entry1\<lparr>available := available entry1 + amt\<rparr>;
                s2 = put_cat_entry s1 m cat entry2;
                s3 = s2\<lparr>transactions := transactions s2 @
                       [\<lparr>month = m, account = None, category = Some cat, amount = amt\<rparr>]\<rparr>
            in Inr ([Budgeted amt cat m], s3))"

definition cmd_spend ::
  "'a::{zero,minus,uminus} state \<Rightarrow> string \<Rightarrow> string \<Rightarrow> string \<Rightarrow> 'a \<Rightarrow> 'a outcome" where
  "cmd_spend s mon acc cat amt =
     (case parse_month mon of
        Inl e \<Rightarrow> Inl e
      | Inr m \<Rightarrow>
          if \<not> has_key (accounts s) acc then Inr ([Account_not_found acc], s)
          else if \<not> has_key (categories s) cat then Inr ([Category_not_found cat], s)
          else
            let (entry, s1) = get_cat_entry s m cat;
                entry1 = entry\<lparr>activity := activity entry - amt\<rparr>;
                entry2 = entry1\<lparr>available := available entry1 - amt\<rparr>;
                s2 = put_cat_entry s1 m cat entry2;
                s3 = s2\<lparr>transactions := transactions s2 @
                       [\<lparr>month = m, account = Some acc, category = Some cat, amount = - amt\<rparr>]\<rparr>
            in Inr ([Spent amt acc cat m], s3))"

definition cmd_xfer ::
  "'a::uminus state \<Rightarrow> string \<Rightarrow> string \<Rightarrow> string \<Rightarrow> 'a \<Rightarrow> 'a outcome" where
  "cmd_xfer s mon src dst amt =
     (case parse_month mon of
        Inl e \<Rightarrow> Inl e
      | Inr m \<Rightarrow>
          if \<not> has_key (accounts s) src \<or> \<not> has_key (accounts s) dst
          then Inr ([Both_accounts_must_exist], s)
          else
            let s1 = s\<lparr>transactions := transactions s @
                       [\<lparr>month = m, account = Some src, category = None, amount = - amt\<rparr>]\<rparr>;
                s2 = s1\<lparr>transactions := transactions s1 @
                       [\<lparr>month = m, account = Some dst, category = None, amount = amt\<rparr>]\<rparr>
            in Inr ([Transferred amt src dst m], s2))"

definition py_max :: "'a::ord \<Rightarrow> 'a \<Rightarrow> 'a" where
  \<comment> \<open>Python's \<^verbatim>\<open>max(a, b)\<close>: the first argument unless the second is greater\<close>
  "py_max a b = (if a < b then b else a)"

fun roll_loop ::
  "string \<Rightarrow> string \<Rightarrow> string list \<Rightarrow>
   (string \<times> (string \<times> 'a cat_entry) list) list \<times> 'a \<Rightarrow>
   (string \<times> (string \<times> 'a::{zero,plus,uminus,ord} cat_entry) list) list \<times> 'a" where
  \<comment> \<open>The loop of \<^verbatim>\<open>cmd_roll\<close> over the categories. \<^verbatim>\<open>from_month\<close> and \<^verbatim>\<open>to_month\<close> are the
      dictionaries stored under \<open>f\<close> and \<open>t\<close>, read here from the current
      \<^verbatim>\<open>category_month\<close>: when \<open>f = t\<close> they are one object and a read sees the earlier
      writes, as in the source.\<close>
  "roll_loop f t [] (cmo, overspend) = (cmo, overspend)"
| "roll_loop f t (c # cs) (cmo, overspend) =
     (let from_month = dict_get cmo f [];
          to_month = dict_get cmo t [];
          av = (case map_of from_month c of None \<Rightarrow> 0 | Some prev \<Rightarrow> available prev);
          carry = py_max av 0;
          overspend1 = (if av < 0 then overspend + (- av) else overspend);
          dest = dict_get to_month c zero_entry;
          dest1 = dest\<lparr>available := available dest + carry\<rparr>
      in roll_loop f t cs (AList.update t (AList.update c dest1 to_month) cmo, overspend1))"

definition cmd_roll ::
  "'a::{zero,plus,minus,uminus,ord} state \<Rightarrow> string \<Rightarrow> string \<Rightarrow> 'a outcome" where
  "cmd_roll s frm to =
     (case parse_month frm of
        Inl e \<Rightarrow> Inl e
      | Inr f \<Rightarrow>
         (case parse_month to of
            Inl e \<Rightarrow> Inl e
          | Inr t \<Rightarrow>
              let cmo0 = setdefault (setdefault (category_month s) f []) t [];
                  (cmo1, overspend) = roll_loop f t (map fst (categories s)) (cmo0, 0);
                  ms = setdefault (month_summary s) t None;
                  rta = (case dict_get ms t None of None \<Rightarrow> 0 | Some v \<Rightarrow> v);
                  ms1 = AList.update t (Some (rta - overspend)) ms
              in Inr ([Rolled_forward f t overspend],
                      s\<lparr>category_month := cmo1, month_summary := ms1\<rparr>)))"

definition cmd_rep :: "'a state \<Rightarrow> string \<Rightarrow> 'a outcome" where
  \<comment> \<open>The first statement after the log line is \<^verbatim>\<open>print(f"Report for {m}\n")\<close>. The
      function never binds \<open>m\<close> (\<^verbatim>\<open>parse_month(mon)\<close> is not called) and the module has no
      global of that name, so the lookup raises \<^verbatim>\<open>NameError\<close> and nothing after it runs.\<close>
  "cmd_rep s mon = Inl NameError"

subsection \<open>Python floats\<close>

text \<open>
  A Python \<^verbatim>\<open>float\<close> is an IEEE 754 binary64 number. A finite one is modelled by its
  rational value (the two zeros are one value, as they are for \<^verbatim>\<open>==\<close>); the sum of two
  finite floats is their exact sum rounded to the nearest binary64 number, ties to the
  even significand, and to an infinity from \<open>2\<^sup>1\<^sup>0\<^sup>2\<^sup>4\<close> on. Subtraction adds the negation,
  which is exact; a comparison with a NaN is false.
\<close>

datatype pyfloat = Finite rat | PosInf | NegInf | NaN

definition pow2 :: "int \<Rightarrow> rat" where
  "pow2 k = (if 0 \<le> k then 2 ^ nat k else 1 / 2 ^ nat (- k))"

definition floor_log2 :: "rat \<Rightarrow> int" where
  \<comment> \<open>for \<open>0 < a\<close>, the \<open>e\<close> with \<open>2\<^sup>e \<le> a < 2\<^sup>e\<^sup>+\<^sup>1\<close>, from the bit lengths of numerator
      and denominator\<close>
  "floor_log2 a =
     (let (p, q) = quotient_of a;
          d = int (floorlog 2 (nat p)) - int (floorlog 2 (nat q))
      in if pow2 d \<le> a then d else d - 1)"

definition round_half_even :: "rat \<Rightarrow> int" where
  "round_half_even x =
     (let f = \<lfloor>x\<rfloor>; r = x - of_int f
      in if r < 1 / 2 then f else if 1 / 2 < r then f + 1
         else if even f then f else f + 1)"

definition round64 :: "rat \<Rightarrow> pyfloat" where
  \<comment> \<open>53 significant bits; below \<open>2\<^sup>-\<^sup>1\<^sup>0\<^sup>2\<^sup>2\<close> the spacing stays \<open>2\<^sup>-\<^sup>1\<^sup>0\<^sup>7\<^sup>4\<close>\<close>
  "round64 x =
     (if x = 0 then Finite 0
      else
        let e = max (floor_log2 \<bar>x\<bar>) (- 1022);
            ulp = pow2 (e - 52);
            r = of_int (round_half_even (x / ulp)) * ulp
        in if pow2 1024 \<le> \<bar>r\<bar> then (if 0 < x then PosInf else NegInf) else Finite r)"

fun float_neg :: "pyfloat \<Rightarrow> pyfloat" where
  "float_neg (Finite x) = Finite (- x)"
| "float_neg PosInf = NegInf"
| "float_neg NegInf = PosInf"
| "float_neg NaN = NaN"

fun float_add :: "pyfloat \<Rightarrow> pyfloat \<Rightarrow> pyfloat" where
  "float_add NaN y = NaN"
| "float_add x NaN = NaN"
| "float_add (Finite x) (Finite y) = round64 (x + y)"
| "float_add PosInf NegInf = NaN"
| "float_add NegInf PosInf = NaN"
| "float_add PosInf y = PosInf"
| "float_add NegInf y = NegInf"
| "float_add (Finite x) y = y"

fun float_less :: "pyfloat \<Rightarrow> pyfloat \<Rightarrow> bool" where
  "float_less NaN y = False"
| "float_less x NaN = False"
| "float_less (Finite x) (Finite y) = (x < y)"
| "float_less x NegInf = False"
| "float_less PosInf y = False"
| "float_less x PosInf = True"
| "float_less NegInf y = True"

fun float_le :: "pyfloat \<Rightarrow> pyfloat \<Rightarrow> bool" where
  "float_le NaN y = False"
| "float_le x NaN = False"
| "float_le (Finite x) (Finite y) = (x \<le> y)"
| "float_le NegInf y = True"
| "float_le x PosInf = True"
| "float_le x NegInf = False"
| "float_le PosInf y = False"

instantiation pyfloat :: "{zero,plus,minus,uminus,ord}"
begin

definition zero_pyfloat :: pyfloat where
  "zero_pyfloat = Finite 0"

definition plus_pyfloat :: "pyfloat \<Rightarrow> pyfloat \<Rightarrow> pyfloat" where
  "plus_pyfloat x y = float_add x y"

definition uminus_pyfloat :: "pyfloat \<Rightarrow> pyfloat" where
  "uminus_pyfloat x = float_neg x"

definition minus_pyfloat :: "pyfloat \<Rightarrow> pyfloat \<Rightarrow> pyfloat" where
  "minus_pyfloat x y = float_add x (float_neg y)"

definition less_pyfloat :: "pyfloat \<Rightarrow> pyfloat \<Rightarrow> bool" where
  "less_pyfloat x y = float_less x y"

definition less_eq_pyfloat :: "pyfloat \<Rightarrow> pyfloat \<Rightarrow> bool" where
  "less_eq_pyfloat x y = float_le x y"

instance ..

end

fun py_round2 :: "pyfloat \<Rightarrow> pyfloat" where
  \<comment> \<open>\<^verbatim>\<open>round(x, 2)\<close>: the exact value rounded half-even to two decimals, then to the nearest
      float; an infinity and a NaN are returned as they are\<close>
  "py_round2 (Finite x) = round64 (of_int (round_half_even (x * 100)) / 100)"
| "py_round2 x = x"

subsection \<open>Reading the state\<close>

definition entry_or_zero :: "'a::zero state \<Rightarrow> string \<Rightarrow> string \<Rightarrow> 'a cat_entry" where
  \<comment> \<open>the entry stored for a month and a category, the all-zero entry when none is\<close>
  "entry_or_zero s m cat = (case entry_at s m cat of None \<Rightarrow> zero_entry | Some e \<Rightarrow> e)"

definition ready_to_assign :: "'a::zero state \<Rightarrow> string \<Rightarrow> 'a" where
  \<comment> \<open>\<^verbatim>\<open>state["month_summary"].get(m, {}).get("ready_to_assign", 0.0)\<close>\<close>
  "ready_to_assign s m = (case dict_get (month_summary s) m None of None \<Rightarrow> 0 | Some v \<Rightarrow> v)"

definition checking_food :: "pyfloat state" where
  \<comment> \<open>a ledger with one account and one category\<close>
  "checking_food =
     \<lparr>accounts = [(''Checking'', ''bank'')], categories = [(''Food'', None)],
      month_summary = [], category_month = [], transactions = []\<rparr>"

definition transfer_ledger :: "pyfloat state" where
  \<comment> \<open>a ledger with two accounts, a budgeted category with a spend, and a month summary\<close>
  "transfer_ledger =
     \<lparr>accounts = [(''Checking'', ''bank''), (''Savings'', ''bank'')],
      categories = [(''Food'', None)],
      month_summary = [(''2024-03'', Some (Finite 500))],
      category_month =
        [(''2024-03'',
          [(''Food'', \<lparr>budgeted = Finite 200, activity = Finite (- 50),
                       available = Finite 150\<rparr>)])],
      transactions =
        [\<lparr>month = ''2024-03'', account = Some ''Checking'', category = Some ''Food'',
          amount = Finite (- 50)\<rparr>]\<rparr>"

fun is_finite :: "pyfloat \<Rightarrow> bool" where
  "is_finite (Finite x) = True"
| "is_finite x = False"

definition source_available :: "'a::zero state \<Rightarrow> string \<Rightarrow> string \<Rightarrow> 'a" where
  \<comment> \<open>\<^verbatim>\<open>from_month.get(c, {"available": 0.0}).get("available", 0.0)\<close>\<close>
  "source_available s f c = available (entry_or_zero s f c)"

definition overspend_sum :: "'a::{zero,plus,uminus,ord} state \<Rightarrow> string \<Rightarrow> 'a" where
  \<comment> \<open>the sum of \<open>- available\<close> over the categories, in the order of the registry, whose
      available in month \<open>f\<close> is negative\<close>
  "overspend_sum s f =
     foldl (\<lambda>acc av. acc + (- av)) 0
       (filter (\<lambda>av. av < 0) (map (source_available s f) (map fst (categories s))))"

definition cm_entry ::
  "(string \<times> (string \<times> 'a cat_entry) list) list \<Rightarrow> string \<Rightarrow> string \<Rightarrow> 'a cat_entry option" where
  \<comment> \<open>\<^verbatim>\<open>category_month[m][c]\<close>, if it is there\<close>
  "cm_entry cmo m c = (case map_of cmo m of None \<Rightarrow> None | Some d \<Rightarrow> map_of d c)"

definition cm_entry_or_zero ::
  "(string \<times> (string \<times> 'a::zero cat_entry) list) list \<Rightarrow> string \<Rightarrow> string \<Rightarrow> 'a cat_entry" where
  "cm_entry_or_zero cmo m c = (case cm_entry cmo m c of None \<Rightarrow> zero_entry | Some e \<Rightarrow> e)"

definition roll_example :: "pyfloat state" where
  \<comment> \<open>the rollover scenario: in 2024-01 Groceries is overspent by 15 and Rent has 40 left;
      2024-02 already has 10 budgeted for Rent and no summary\<close>
  "roll_example =
     \<lparr>accounts = [], categories = [(''Groceries'', None), (''Rent'', None)],
      month_summary = [],
      category_month =
        [(''2024-01'',
          [(''Groceries'', \<lparr>budgeted = Finite 0, activity = Finite (- 15), available = Finite (- 15)\<rparr>),
           (''Rent'', \<lparr>budgeted = Finite 40, activity = Finite 0, available = Finite 40\<rparr>)]),
         (''2024-02'',
          [(''Rent'', \<lparr>budgeted = Finite 10, activity = Finite 0, available = Finite 10\<rparr>)])],
      transactions = []\<rparr>"

subsection \<open>Sequences of commands\<close>

datatype 'a command =
    Acc string string
  | Cat string
  | Tbb string 'a
  | Bud string string 'a
  | Spend string string string 'a
  | Xfer string string string 'a
  | Roll_forward string string
  | Rep string

fun exec ::
  "('a \<Rightarrow> 'a) \<Rightarrow> 'a::{zero,plus,minus,uminus,ord} state \<Rightarrow> 'a command \<Rightarrow> 'a outcome" where
  \<comment> \<open>the dispatch of \<^verbatim>\<open>main\<close> to the function \<^verbatim>\<open>cmd_\<close>\<open>name\<close>\<close>
  "exec round2 s (Acc name typ) = cmd_acc s name typ"
| "exec round2 s (Cat spec) = cmd_cat s spec"
| "exec round2 s (Tbb mon amt) = cmd_tbb round2 s mon amt"
| "exec round2 s (Bud mon cat amt) = cmd_bud s mon cat amt"
| "exec round2 s (Spend mon acc cat amt) = cmd_spend s mon acc cat amt"
| "exec round2 s (Xfer mon src dst amt) = cmd_xfer s mon src dst amt"
| "exec round2 s (Roll_forward frm to) = cmd_roll s frm to"
| "exec round2 s (Rep mon) = cmd_rep s mon"

fun run ::
  "('a \<Rightarrow> 'a) \<Rightarrow> 'a::{zero,plus,minus,uminus,ord} state \<Rightarrow> 'a command list \<Rightarrow>
   py_error + 'a state" where
  \<comment> \<open>one command after the other on the same ledger, up to the first exception\<close>
  "run round2 s [] = Inr s"
| "run round2 s (c # cs) =
     (case exec round2 s c of Inl e \<Rightarrow> Inl e | Inr (out, s') \<Rightarrow> run round2 s' cs)"

definition end_to_end :: "pyfloat command list" where
  \<comment> \<open>the end-to-end scenario of the specification\<close>
  "end_to_end =
     [Acc ''Checking'' ''bank'', Cat ''Food'', Tbb ''2024-03'' (Finite 500),
      Bud ''2024-03'' ''Food'' (Finite 200), Spend ''2024-03'' ''Checking'' ''Food'' (Finite 50)]"

definition after_end_to_end :: "pyfloat state" where
  \<comment> \<open>the ledger that the scenario leaves\<close>
  "after_end_to_end =
     \<lparr>accounts = [(''Checking'', ''bank'')], categories = [(''Food'', None)],
      month_summary = [(''2024-03'', Some (Finite 500))],
      category_month =
        [(''2024-03'',
          [(''Food'', \<lparr>budgeted = Finite 200, activity = Finite (- 50), available = Finite 150\<rparr>)])],
      transactions =
        [\<lparr>month = ''2024-03'', account = None, category = Some ''Food'', amount = Finite 200\<rparr>,
         \<lparr>month = ''2024-03'', account = Some ''Checking'', category = Some ''Food'',
          amount = Finite (- 50)\<rparr>]\<rparr>"

fun engine_command :: "'a command \<Rightarrow> bool" where
  \<comment> \<open>every command but the rollover and the report\<close>
  "engine_command (Roll_forward frm to) = False"
| "engine_command (Rep mon) = False"
| "engine_command c = True"

definition balanced :: "'a::plus cat_entry \<Rightarrow> bool" where
  "balanced e = (available e = budgeted e + activity e)"

definition entries_balanced :: "'a::plus state \<Rightarrow> bool" where
  \<comment> \<open>every entry stored in \<^verbatim>\<open>category_month\<close> has \<open>available = budgeted + activity\<close>\<close>
  "entries_balanced s =
     (\<forall>(m, cm) \<in> set (category_month s). \<forall>(c, e) \<in> set cm. balanced e)"

definition drift :: "pyfloat command list" where
  \<comment> \<open>budget \<open>10\<^sup>1\<^sup>6\<close>, spend it, budget 1\<close>
  "drift =
     [Acc ''Checking'' ''bank'', Cat ''Food'',
      Bud ''2024-03'' ''Food'' (Finite 10000000000000000),
      Spend ''2024-03'' ''Checking'' ''Food'' (Finite 10000000000000000),
      Bud ''2024-03'' ''Food'' (Finite 1)]"

definition after_drift :: "pyfloat state" where
  "after_drift =
     \<lparr>accounts = [(''Checking'', ''bank'')], categories = [(''Food'', None)],
      month_summary = [],
      category_month =
        [(''2024-03'',
          [(''Food'', \<lparr>budgeted = Finite 10000000000000000,
                       activity = Finite (- 10000000000000000), available = Finite 1\<rparr>)])],
      transactions =
        [\<lparr>month = ''2024-03'', account = None, category = Some ''Food'',
          amount = Finite 10000000000000000\<rparr>,
         \<lparr>month = ''2024-03'', account = Some ''Checking'', category = Some ''Food'',
          amount = Finite (- 10000000000000000)\<rparr>,
         \<lparr>month = ''2024-03'', account = None, category = Some ''Food'', amount = Finite 1\<rparr>]\<rparr>"

fun exact_add :: "pyfloat \<Rightarrow> pyfloat \<Rightarrow> bool" where
  \<comment> \<open>the float sum of two finite floats is their sum as numbers: the addition does not
      round and does not overflow\<close>
  "exact_add (Finite x) (Finite y) = (Finite x + Finite y = Finite (x + y))"
| "exact_add x y = False"

fun exact_sub :: "pyfloat \<Rightarrow> pyfloat \<Rightarrow> bool" where
  "exact_sub (Finite x) (Finite y) = (Finite x - Finite y = Finite (x - y))"
| "exact_sub x y = False"

fun exact_step :: "pyfloat state \<Rightarrow> pyfloat command \<Rightarrow> bool" where
  \<comment> \<open>the two additions of \<^verbatim>\<open>cmd_bud\<close>, and the two subtractions of \<^verbatim>\<open>cmd_spend\<close>, on the
      entry that the command reads are exact; a command that reaches no entry asks for
      nothing\<close>
  "exact_step s (Bud mon cat amt) =
     (case parse_month mon of
        Inl e \<Rightarrow> True
      | Inr m \<Rightarrow>
          if has_key (categories s) cat
          then exact_add (budgeted (fst (get_cat_entry s m cat))) amt \<and>
               exact_add (available (fst (get_cat_entry s m cat))) amt
          else True)"
| "exact_step s (Spend mon acc cat amt) =
     (case parse_month mon of
        Inl e \<Rightarrow> True
      | Inr m \<Rightarrow>
          if has_key (accounts s) acc \<and> has_key (categories s) cat
          then exact_sub (activity (fst (get_cat_entry s m cat))) amt \<and>
               exact_sub (available (fst (get_cat_entry s m cat))) amt
          else True)"
| "exact_step s c = True"

fun exact_run :: "pyfloat state \<Rightarrow> pyfloat command list \<Rightarrow> bool" where
  \<comment> \<open>every command of the list is an exact step on the ledger that it is run on\<close>
  "exact_run s [] = True"
| "exact_run s (c # cs) =
     (exact_step s c \<and>
      (case exec py_round2 s c of Inl e \<Rightarrow> True | Inr (out, s') \<Rightarrow> exact_run s' cs))"

definition settled :: "pyfloat cat_entry \<Rightarrow> bool" where
  \<comment> \<open>the three fields are finite, and \<open>available\<close> is the sum of the other two as numbers\<close>
  "settled e =
     (\<exists>b a. budgeted e = Finite b \<and> activity e = Finite a \<and> available e = Finite (b + a) \<and>
        round64 (b + a) = Finite (b + a))"

definition entries_settled :: "pyfloat state \<Rightarrow> bool" where
  "entries_settled s =
     (\<forall>(m, cm) \<in> set (category_month s). \<forall>(c, e) \<in> set cm. settled e)"

section \<open>Properties\<close>

subsection \<open>Dictionaries and entries\<close>

lemma map_of_setdefault:
  "map_of (setdefault d k v) k' =
     (if k' = k \<and> map_of d k = None then Some v else map_of d k')"
  by (auto simp: setdefault_def map_add_def split: option.splits)

lemma dict_get_setdefault: "dict_get (setdefault d k v) k w = dict_get d k v"
  by (simp add: dict_get_def map_of_setdefault split: option.splits)

lemma entry_at_get_cat_entry:
  "entry_at (snd (get_cat_entry s m cat)) m' c' =
     (if m' = m \<and> c' = cat \<and> entry_at s m cat = None then Some zero_entry
      else entry_at s m' c')"
  by (auto simp: get_cat_entry_def entry_at_def Let_def update_conv' map_of_setdefault
        dict_get_def split: option.splits)

lemma fst_get_cat_entry: "fst (get_cat_entry s m cat) = entry_or_zero s m cat"
  by (auto simp: get_cat_entry_def entry_at_def entry_or_zero_def Let_def dict_get_def
        split: option.splits)

lemma entry_at_put_cat_entry:
  "entry_at (put_cat_entry s m cat e) m' c' =
     (if m' = m \<and> c' = cat then Some e else entry_at s m' c')"
  by (auto simp: put_cat_entry_def entry_at_def update_conv' dict_get_def split: option.splits)

lemma entry_at_transactions: "entry_at (s\<lparr>transactions := ts\<rparr>) m c = entry_at s m c"
  by (simp add: entry_at_def)

lemma get_cat_entry_frame:
  "accounts (snd (get_cat_entry s m cat)) = accounts s"
  "categories (snd (get_cat_entry s m cat)) = categories s"
  "month_summary (snd (get_cat_entry s m cat)) = month_summary s"
  "transactions (snd (get_cat_entry s m cat)) = transactions s"
  by (simp_all add: get_cat_entry_def Let_def)

lemma put_cat_entry_frame:
  "accounts (put_cat_entry s m cat e) = accounts s"
  "categories (put_cat_entry s m cat e) = categories s"
  "month_summary (put_cat_entry s m cat e) = month_summary s"
  "transactions (put_cat_entry s m cat e) = transactions s"
  by (simp_all add: put_cat_entry_def)

lemma parse_2024_03: "parse_month ''2024-03'' = Inr ''2024-03''"
  by code_simp

subsection \<open>Float arithmetic on concrete amounts\<close>

lemma round_half_even_of_int: "round_half_even (of_int z) = z"
  by (simp add: round_half_even_def)

lemma floor_log2_of_nat:
  assumes "0 < k"
  shows "floor_log2 (of_nat k) = int (floorlog 2 k) - 1"
proof -
  have q: "quotient_of (of_nat k :: rat) = (int k, 1)"
    using quotient_of_int [of "int k"] by (simp add: of_int_rat [symmetric] Rat.of_int_def)
  have one: "floorlog 2 (Suc 0) = 1"
    by (subst compute_floorlog) (simp add: floorlog_eq_zero_iff)
  have pos: "1 \<le> floorlog 2 k"
    using assms floorlog_eq_zero_iff [of 2 k] by (cases "floorlog 2 k") simp_all
  have "(2::nat) ^ (floorlog 2 k - 1) \<le> k"
    using floorlog_bounds [of k 2] assms by simp
  then have "(of_nat ((2::nat) ^ (floorlog 2 k - 1)) :: rat) \<le> of_nat k"
    by (rule of_nat_mono)
  then have le: "pow2 (int (floorlog 2 k) - 1) \<le> of_nat k"
    using pos by (simp add: pow2_def nat_diff_distrib)
  show ?thesis
    using le by (simp add: floor_log2_def q one)
qed

lemma round64_of_int:
  assumes "\<bar>n\<bar> < 2 ^ 53"
  shows "round64 (of_int n) = Finite (of_int n)"
proof (cases "n = 0")
  case True
  then show ?thesis by (simp add: round64_def)
next
  case False
  define k where "k = nat \<bar>n\<bar>"
  have k: "0 < k" "k < 2 ^ 53" "\<bar>of_int n :: rat\<bar> = of_nat k"
    using False assms by (simp_all add: k_def nat_less_iff)
  define e where "e = floorlog 2 k - 1"
  have fl: "floorlog 2 k \<le> 53"
    using k(2) by (simp add: floorlog_le_iff)
  have pos: "1 \<le> floorlog 2 k"
    using k(1) floorlog_eq_zero_iff [of 2 k] by (cases "floorlog 2 k") simp_all
  have e: "floor_log2 \<bar>of_int n :: rat\<bar> = int e" "e \<le> 52"
    using floor_log2_of_nat [OF k(1)] fl pos
    by (simp_all add: e_def k(3) of_nat_diff)
  define j where "j = 52 - e"
  have ulp: "pow2 (max (int e) (- 1022) - 52) = 1 / 2 ^ j"
    using e(2) by (auto simp: pow2_def j_def nat_diff_distrib max_def)
  have scaled: "(of_int n :: rat) / (1 / 2 ^ j) = of_int (n * 2 ^ j)"
    by simp
  have unscaled: "(of_int (n * 2 ^ j) :: rat) * (1 / 2 ^ j) = of_int n"
    by simp
  have "\<bar>of_int n :: rat\<bar> < 2 ^ 53"
    using assms by (metis of_int_abs of_int_less_numeral_power_cancel_iff)
  also have "\<dots> \<le> (2::rat) ^ 1024"
    by (rule power_increasing) simp_all
  finally have small: "\<not> pow2 1024 \<le> \<bar>of_int n :: rat\<bar>"
    by (simp add: pow2_def)
  show ?thesis
    using False small
    by (simp only: round64_def Let_def e(1) ulp scaled unscaled round_half_even_of_int)
       simp
qed

lemma round64_numeral:
  "(numeral w :: int) < 2 ^ 53 \<Longrightarrow> round64 (numeral w) = Finite (numeral w)"
  "(numeral w :: int) < 2 ^ 53 \<Longrightarrow> round64 (- numeral w) = Finite (- numeral w)"
  using round64_of_int [of "numeral w"] round64_of_int [of "- numeral w"] by simp_all

lemma float_facts:
  "py_round2 (Finite 500) = Finite 500"
  "(0::pyfloat) + Finite 200 = Finite 200"
  "(0::pyfloat) - Finite 50 = Finite (- 50)"
  "Finite 200 - Finite 50 = Finite 150"
  "- Finite 50 = Finite (- 50)"
  by (simp_all add: zero_pyfloat_def plus_pyfloat_def minus_pyfloat_def uminus_pyfloat_def
        round64_numeral round_half_even_of_int [of "numeral w" for w, simplified])

lemma floor_half_big: "\<lfloor>(10000000000000001::rat) / 2\<rfloor> = 5000000000000000"
  using floor_divide_of_int_eq [of 10000000000000001 2, where ?'a = rat] by simp

lemma round_half_big: "round_half_even (10000000000000001 / 2) = 5000000000000000"
  unfolding round_half_even_def Let_def floor_half_big by simp

lemma floor_log2_big:
  "floor_log2 10000000000000001 = 53" "floor_log2 10000000000000000 = 53"
  by (simp_all add: floor_log2_def compute_floorlog pow2_def)

lemma round_half_even_numeral:
  "round_half_even (numeral w) = numeral w"
  "round_half_even (- numeral w) = - numeral w"
  using round_half_even_of_int [of "numeral w"] round_half_even_of_int [of "- numeral w"]
  by simp_all

lemma round64_big:
  "round64 10000000000000000 = Finite 10000000000000000"
  "round64 (- 10000000000000000) = Finite (- 10000000000000000)"
  "round64 10000000000000001 = Finite 10000000000000000"
  by (simp_all add: round64_def floor_log2_big round_half_big round_half_even_numeral
        pow2_def Let_def)

lemma round64_small: "round64 0 = Finite 0" "round64 1 = Finite 1"
  using round64_of_int [of 0] round64_of_int [of 1] by simp_all

lemma big_float_facts:
  "(0::pyfloat) + Finite 10000000000000000 = Finite 10000000000000000"
  "(0::pyfloat) - Finite 10000000000000000 = Finite (- 10000000000000000)"
  "Finite 10000000000000000 - Finite 10000000000000000 = Finite 0"
  "Finite 10000000000000000 + Finite 1 = Finite 10000000000000000"
  "Finite 0 + Finite 1 = Finite 1"
  "Finite 10000000000000000 + Finite (- 10000000000000000) = Finite 0"
  by (simp_all add: zero_pyfloat_def plus_pyfloat_def minus_pyfloat_def round64_big
        round64_small)

subsection \<open>Recording a spend\<close>

lemma cmd_spend_ok:
  fixes s :: "'a::{zero,minus,uminus} state"
  assumes "parse_month mon = Inr m" "has_key (accounts s) acc" "has_key (categories s) cat"
  shows "cmd_spend s mon acc cat amt =
     Inr ([Spent amt acc cat m],
          (put_cat_entry (snd (get_cat_entry s m cat)) m cat
             ((entry_or_zero s m cat)\<lparr>activity := activity (entry_or_zero s m cat) - amt,
                 available := available (entry_or_zero s m cat) - amt\<rparr>))
          \<lparr>transactions := transactions s @
             [\<lparr>month = m, account = Some acc, category = Some cat, amount = - amt\<rparr>]\<rparr>)"
  using assms
  by (simp add: cmd_spend_def Let_def split_beta fst_get_cat_entry
        put_cat_entry_frame get_cat_entry_frame)

text \<open>
  Claim C2. With a valid month text, \<^verbatim>\<open>cmd_spend\<close> on a registered account and a
  registered category subtracts the amount from the \<open>activity\<close> and from the
  \<open>available\<close> of the category's entry for the month (the all-zero entry if none was
  stored), leaves every other entry, the accounts, the categories and the month summaries
  as they were, and appends the one transaction \<open>{month, account, category, - amount}\<close>.
  With an unknown account, or a known account and an unknown category, it prints the
  message and returns the state it was given.
\<close>

theorem cmd_spend_effect:
  fixes s :: "'a::{zero,minus,uminus} state"
  assumes "parse_month mon = Inr m"
  shows "(has_key (accounts s) acc \<and> has_key (categories s) cat \<longrightarrow>
           (\<exists>s'. cmd_spend s mon acc cat amt = Inr ([Spent amt acc cat m], s') \<and>
              entry_at s' m cat =
                Some ((entry_or_zero s m cat)
                       \<lparr>activity := activity (entry_or_zero s m cat) - amt,
                        available := available (entry_or_zero s m cat) - amt\<rparr>) \<and>
              (\<forall>m' c'. (m', c') \<noteq> (m, cat) \<longrightarrow> entry_at s' m' c' = entry_at s m' c') \<and>
              transactions s' = transactions s @
                [\<lparr>month = m, account = Some acc, category = Some cat, amount = - amt\<rparr>] \<and>
              accounts s' = accounts s \<and> categories s' = categories s \<and>
              month_summary s' = month_summary s))
       \<and> (\<not> has_key (accounts s) acc \<longrightarrow>
             cmd_spend s mon acc cat amt = Inr ([Account_not_found acc], s))
       \<and> (has_key (accounts s) acc \<and> \<not> has_key (categories s) cat \<longrightarrow>
             cmd_spend s mon acc cat amt = Inr ([Category_not_found cat], s))"
proof (intro conjI impI)
  assume h: "has_key (accounts s) acc \<and> has_key (categories s) cat"
  show "\<exists>s'. cmd_spend s mon acc cat amt = Inr ([Spent amt acc cat m], s') \<and>
              entry_at s' m cat =
                Some ((entry_or_zero s m cat)
                       \<lparr>activity := activity (entry_or_zero s m cat) - amt,
                        available := available (entry_or_zero s m cat) - amt\<rparr>) \<and>
              (\<forall>m' c'. (m', c') \<noteq> (m, cat) \<longrightarrow> entry_at s' m' c' = entry_at s m' c') \<and>
              transactions s' = transactions s @
                [\<lparr>month = m, account = Some acc, category = Some cat, amount = - amt\<rparr>] \<and>
              accounts s' = accounts s \<and> categories s' = categories s \<and>
              month_summary s' = month_summary s"
    using cmd_spend_ok [OF assms, of s acc cat amt] h
    by (simp add: entry_at_transactions entry_at_put_cat_entry
          entry_at_get_cat_entry put_cat_entry_frame get_cat_entry_frame)
next
  assume "\<not> has_key (accounts s) acc"
  then show "cmd_spend s mon acc cat amt = Inr ([Account_not_found acc], s)"
    using assms by (simp add: cmd_spend_def)
next
  assume "has_key (accounts s) acc \<and> \<not> has_key (categories s) cat"
  then show "cmd_spend s mon acc cat amt = Inr ([Category_not_found cat], s)"
    using assms by (simp add: cmd_spend_def)
qed

theorem cmd_spend_effect_witness:
  "parse_month ''2024-03'' = Inr ''2024-03'' \<and>
   has_key (accounts checking_food) ''Checking'' \<and>
   has_key (categories checking_food) ''Food'' \<and>
   \<not> has_key (accounts checking_food) ''Savings'' \<and>
   \<not> has_key (categories checking_food) ''Rent'' \<and>
   (\<exists>s'. cmd_spend checking_food ''2024-03'' ''Checking'' ''Food'' (Finite 50) =
            Inr ([Spent (Finite 50) ''Checking'' ''Food'' ''2024-03''], s') \<and>
          transactions s' =
            [\<lparr>month = ''2024-03'', account = Some ''Checking'', category = Some ''Food'',
              amount = - Finite 50\<rparr>]) \<and>
   cmd_spend checking_food ''2024-03'' ''Savings'' ''Food'' (Finite 50) =
     Inr ([Account_not_found ''Savings''], checking_food) \<and>
   cmd_spend checking_food ''2024-03'' ''Checking'' ''Rent'' (Finite 50) =
     Inr ([Category_not_found ''Rent''], checking_food)"
proof -
  have a: "has_key (accounts checking_food) ''Checking''"
    and c: "has_key (categories checking_food) ''Food''"
    and na: "\<not> has_key (accounts checking_food) ''Savings''"
    and nc: "\<not> has_key (categories checking_food) ''Rent''"
    and ts: "transactions checking_food = []"
    by (simp_all add: checking_food_def has_key_def)
  show ?thesis
    using cmd_spend_effect [OF parse_2024_03, of checking_food "''Checking''" "''Food''" "Finite 50"]
      cmd_spend_effect [OF parse_2024_03, of checking_food "''Savings''" "''Food''" "Finite 50"]
      cmd_spend_effect [OF parse_2024_03, of checking_food "''Checking''" "''Rent''" "Finite 50"]
      a c na nc ts parse_2024_03
    by auto
qed

subsection \<open>Transfers\<close>

text \<open>
  Claim C4. With a valid month text and both accounts registered, \<^verbatim>\<open>cmd_xfer\<close> leaves
  \<open>category_month\<close>, \<open>month_summary\<close>, the accounts and the categories as they were and
  appends exactly two transactions, \<open>- amount\<close> against the source account and
  \<open>amount\<close> against the destination account, both without a category. The floating-point
  sum of the two appended amounts is zero when the amount of the call is finite, and NaN
  when it is an infinity or a NaN.
\<close>

theorem cmd_xfer_frame:
  fixes s :: "pyfloat state"
  assumes "parse_month mon = Inr m" "has_key (accounts s) src" "has_key (accounts s) dst"
  shows "\<exists>s' t1 t2. cmd_xfer s mon src dst amt = Inr ([Transferred amt src dst m], s') \<and>
            category_month s' = category_month s \<and> month_summary s' = month_summary s \<and>
            accounts s' = accounts s \<and> categories s' = categories s \<and>
            transactions s' = transactions s @ [t1, t2] \<and>
            t1 = \<lparr>month = m, account = Some src, category = None, amount = - amt\<rparr> \<and>
            t2 = \<lparr>month = m, account = Some dst, category = None, amount = amt\<rparr> \<and>
            amount t1 + amount t2 = (if is_finite amt then 0 else NaN)"
  using assms
  by (cases amt)
     (simp_all add: cmd_xfer_def Let_def plus_pyfloat_def uminus_pyfloat_def zero_pyfloat_def
        round64_def)

lemma transfer_ledger_accounts:
  "has_key (accounts transfer_ledger) ''Checking''"
  "has_key (accounts transfer_ledger) ''Savings''"
  by (simp_all add: transfer_ledger_def has_key_def)

theorem cmd_xfer_frame_witness:
  "parse_month ''2024-03'' = Inr ''2024-03'' \<and>
   has_key (accounts transfer_ledger) ''Checking'' \<and>
   has_key (accounts transfer_ledger) ''Savings'' \<and>
   is_finite (Finite 50) \<and>
   (\<exists>s'. cmd_xfer transfer_ledger ''2024-03'' ''Checking'' ''Savings'' (Finite 50) =
            Inr ([Transferred (Finite 50) ''Checking'' ''Savings'' ''2024-03''], s') \<and>
          category_month s' =
            [(''2024-03'',
              [(''Food'', \<lparr>budgeted = Finite 200, activity = Finite (- 50),
                           available = Finite 150\<rparr>)])] \<and>
          month_summary s' = [(''2024-03'', Some (Finite 500))] \<and>
          transactions s' =
            [\<lparr>month = ''2024-03'', account = Some ''Checking'', category = Some ''Food'',
              amount = Finite (- 50)\<rparr>,
             \<lparr>month = ''2024-03'', account = Some ''Checking'', category = None,
              amount = Finite (- 50)\<rparr>,
             \<lparr>month = ''2024-03'', account = Some ''Savings'', category = None,
              amount = Finite 50\<rparr>] \<and>
          amount (transactions s' ! 1) + amount (transactions s' ! 2) = 0)"
proof -
  note a = transfer_ledger_accounts
  from cmd_xfer_frame [OF parse_2024_03 a, of "Finite 50"]
  obtain s' t1 t2 where
    r: "cmd_xfer transfer_ledger ''2024-03'' ''Checking'' ''Savings'' (Finite 50) =
          Inr ([Transferred (Finite 50) ''Checking'' ''Savings'' ''2024-03''], s')"
    and c: "category_month s' = category_month transfer_ledger"
    and m: "month_summary s' = month_summary transfer_ledger"
    and t: "transactions s' = transactions transfer_ledger @ [t1, t2]"
    and t1: "t1 = \<lparr>month = ''2024-03'', account = Some ''Checking'', category = None,
                   amount = - Finite 50\<rparr>"
    and t2: "t2 = \<lparr>month = ''2024-03'', account = Some ''Savings'', category = None,
                   amount = Finite 50\<rparr>"
    and z: "amount t1 + amount t2 = (if is_finite (Finite 50) then 0 else NaN)"
    by (elim exE conjE) (rule that, assumption+)
  have c': "category_month s' =
            [(''2024-03'',
              [(''Food'', \<lparr>budgeted = Finite 200, activity = Finite (- 50),
                           available = Finite 150\<rparr>)])]"
    using c by (simp add: transfer_ledger_def)
  have m': "month_summary s' = [(''2024-03'', Some (Finite 500))]"
    using m by (simp add: transfer_ledger_def)
  have t': "transactions s' =
            [\<lparr>month = ''2024-03'', account = Some ''Checking'', category = Some ''Food'',
              amount = Finite (- 50)\<rparr>,
             \<lparr>month = ''2024-03'', account = Some ''Checking'', category = None,
              amount = Finite (- 50)\<rparr>,
             \<lparr>month = ''2024-03'', account = Some ''Savings'', category = None,
              amount = Finite 50\<rparr>]"
    using t t1 t2 by (simp add: transfer_ledger_def uminus_pyfloat_def)
  have z': "amount (transactions s' ! 1) + amount (transactions s' ! 2) = 0"
    using z t by (simp add: transfer_ledger_def)
  have f: "is_finite (Finite 50)"
    by simp
  have "\<exists>s'. cmd_xfer transfer_ledger ''2024-03'' ''Checking'' ''Savings'' (Finite 50) =
            Inr ([Transferred (Finite 50) ''Checking'' ''Savings'' ''2024-03''], s') \<and>
          category_month s' =
            [(''2024-03'',
              [(''Food'', \<lparr>budgeted = Finite 200, activity = Finite (- 50),
                           available = Finite 150\<rparr>)])] \<and>
          month_summary s' = [(''2024-03'', Some (Finite 500))] \<and>
          transactions s' =
            [\<lparr>month = ''2024-03'', account = Some ''Checking'', category = Some ''Food'',
              amount = Finite (- 50)\<rparr>,
             \<lparr>month = ''2024-03'', account = Some ''Checking'', category = None,
              amount = Finite (- 50)\<rparr>,
             \<lparr>month = ''2024-03'', account = Some ''Savings'', category = None,
              amount = Finite 50\<rparr>] \<and>
          amount (transactions s' ! 1) + amount (transactions s' ! 2) = 0"
    by (rule exI [of _ s'], rule conjI [OF r conjI [OF c' conjI [OF m' conjI [OF t' z']]]])
  then show ?thesis
    by (rule conjI [OF parse_2024_03 conjI [OF a(1) conjI [OF a(2) conjI [OF f]]]])
qed

text \<open>
  The claim as it was written, with the two amounts summing to zero for every amount, fails
  for an infinite amount, which the command line accepts (\<^verbatim>\<open>xfer 2024-03 Checking Savings inf\<close>):
  the appended amounts are \<open>-inf\<close> and \<open>inf\<close>, and their sum is NaN.
\<close>

theorem cmd_xfer_infinite_counterexample:
  "cmd_xfer transfer_ledger ''2024-03'' ''Checking'' ''Savings'' PosInf =
     Inr ([Transferred PosInf ''Checking'' ''Savings'' ''2024-03''],
          transfer_ledger\<lparr>transactions := transactions transfer_ledger @
            [\<lparr>month = ''2024-03'', account = Some ''Checking'', category = None,
              amount = NegInf\<rparr>,
             \<lparr>month = ''2024-03'', account = Some ''Savings'', category = None,
              amount = PosInf\<rparr>]\<rparr>) \<and>
   NegInf + PosInf = NaN \<and> NaN \<noteq> (0 :: pyfloat)"
  by (simp add: cmd_xfer_def parse_2024_03 transfer_ledger_accounts Let_def
        plus_pyfloat_def uminus_pyfloat_def zero_pyfloat_def)

subsection \<open>Loading the state\<close>

text \<open>
  Claim C9. When no state file exists, \<^verbatim>\<open>load_state\<close> does not return the empty ledger:
  it raises \<^verbatim>\<open>AttributeError\<close> at \<^verbatim>\<open>DATA.exists()\<close>, because \<^verbatim>\<open>DATA\<close> is a string and not a
  path object.
\<close>

theorem load_state_raises:
  "load_state None = (Inl AttributeError :: py_error + 'a state) \<and>
   load_state None \<noteq> (Inr fresh_state :: py_error + 'a state)"
  by (simp add: load_state_def)

subsection \<open>Budgeting into a category\<close>

lemma cmd_bud_ok:
  fixes s :: "'a::{zero,plus} state"
  assumes "parse_month mon = Inr m" "has_key (categories s) cat"
  shows "cmd_bud s mon cat amt =
     Inr ([Budgeted amt cat m],
          (put_cat_entry (snd (get_cat_entry s m cat)) m cat
             ((entry_or_zero s m cat)\<lparr>budgeted := budgeted (entry_or_zero s m cat) + amt,
                 available := available (entry_or_zero s m cat) + amt\<rparr>))
          \<lparr>transactions := transactions s @
             [\<lparr>month = m, account = None, category = Some cat, amount = amt\<rparr>]\<rparr>)"
  using assms
  by (simp add: cmd_bud_def Let_def split_beta fst_get_cat_entry
        put_cat_entry_frame get_cat_entry_frame)

lemma entry_or_zero_after_bud:
  fixes s :: "'a::{zero,plus} state"
  assumes "parse_month mon = Inr m" "has_key (categories s) cat"
    and "cmd_bud s mon cat amt = Inr (out, s')"
  shows "entry_or_zero s' m cat =
           (entry_or_zero s m cat)\<lparr>budgeted := budgeted (entry_or_zero s m cat) + amt,
                 available := available (entry_or_zero s m cat) + amt\<rparr>"
    and "transactions s' = transactions s @
             [\<lparr>month = m, account = None, category = Some cat, amount = amt\<rparr>]"
    and "categories s' = categories s"
  using assms(3) unfolding cmd_bud_ok [OF assms(1,2)]
  by (auto simp: entry_or_zero_def [of "_\<lparr>transactions := _\<rparr>"] entry_at_transactions
        entry_at_put_cat_entry put_cat_entry_frame get_cat_entry_frame)

lemma run_bud_general:
  fixes s :: "'a::{zero,plus,minus,uminus,ord} state"
  assumes "has_key (categories s) cat"
    and "\<forall>(t, a) \<in> set calls. parse_month t = Inr m"
  shows "\<exists>s'. run r s (map (\<lambda>(t, a). Bud t cat a) calls) = Inr s' \<and>
          budgeted (entry_or_zero s' m cat) =
            foldl (+) (budgeted (entry_or_zero s m cat)) (map snd calls) \<and>
          available (entry_or_zero s' m cat) =
            foldl (+) (available (entry_or_zero s m cat)) (map snd calls) \<and>
          activity (entry_or_zero s' m cat) = activity (entry_or_zero s m cat) \<and>
          transactions s' = transactions s @
            map (\<lambda>(t, a). \<lparr>month = m, account = None, category = Some cat, amount = a\<rparr>) calls"
  using assms
proof (induction calls arbitrary: s)
  case Nil
  then show ?case by simp
next
  case (Cons call calls)
  obtain t a where call: "call = (t, a)" by (cases call)
  from Cons.prems(2) call have pm: "parse_month t = Inr m" by simp
  let ?s1 = "(put_cat_entry (snd (get_cat_entry s m cat)) m cat
             ((entry_or_zero s m cat)\<lparr>budgeted := budgeted (entry_or_zero s m cat) + a,
                 available := available (entry_or_zero s m cat) + a\<rparr>))
          \<lparr>transactions := transactions s @
             [\<lparr>month = m, account = None, category = Some cat, amount = a\<rparr>]\<rparr>"
  have step: "cmd_bud s t cat a = Inr ([Budgeted a cat m], ?s1)"
    by (rule cmd_bud_ok [OF pm Cons.prems(1)])
  note after = entry_or_zero_after_bud [OF pm Cons.prems(1) step]
  have k1: "has_key (categories ?s1) cat"
    using Cons.prems(1) after(3) by simp
  have rest: "\<forall>(t, a) \<in> set calls. parse_month t = Inr m"
    using Cons.prems(2) by simp
  from Cons.IH [OF k1 rest] obtain s' where
    r: "run r ?s1 (map (\<lambda>(t, a). Bud t cat a) calls) = Inr s'"
    and b: "budgeted (entry_or_zero s' m cat) =
            foldl (+) (budgeted (entry_or_zero ?s1 m cat)) (map snd calls)"
    and av: "available (entry_or_zero s' m cat) =
            foldl (+) (available (entry_or_zero ?s1 m cat)) (map snd calls)"
    and ac: "activity (entry_or_zero s' m cat) = activity (entry_or_zero ?s1 m cat)"
    and tr: "transactions s' = transactions ?s1 @
            map (\<lambda>(t, a). \<lparr>month = m, account = None, category = Some cat, amount = a\<rparr>) calls"
    by blast
  have "run r s (map (\<lambda>(t, a). Bud t cat a) (call # calls)) = Inr s'"
    using r step call by simp
  moreover have "budgeted (entry_or_zero s' m cat) =
            foldl (+) (budgeted (entry_or_zero s m cat)) (map snd (call # calls))"
    using b call by (simp add: after(1))
  moreover have "available (entry_or_zero s' m cat) =
            foldl (+) (available (entry_or_zero s m cat)) (map snd (call # calls))"
    using av call by (simp add: after(1))
  moreover have "activity (entry_or_zero s' m cat) = activity (entry_or_zero s m cat)"
    using ac by (simp add: after(1))
  moreover have "transactions s' = transactions s @
            map (\<lambda>(t, a). \<lparr>month = m, account = None, category = Some cat, amount = a\<rparr>)
              (call # calls)"
    using tr call by (simp add: after(2))
  ultimately show ?case by blast
qed

text \<open>
  Claim C3. A sequence of \<^verbatim>\<open>cmd_bud\<close> calls with amounts \<open>a\<^sub>1, \<dots>, a\<^sub>n\<close> into one registered
  category, with month texts that all denote the month \<open>m\<close>, from a state in which the
  entry for \<open>m\<close> and the category is absent or all-zero, succeeds and ends with
  \<open>budgeted = available = (((0 + a\<^sub>1) + a\<^sub>2) + \<dots>) + a\<^sub>n\<close> (the additions of the source, in
  the order of the calls) and \<open>activity = 0\<close>; the calls append, one each and in order, the
  transactions \<open>{month = m, account = None, category, amount = a\<^sub>i}\<close>.
\<close>

theorem bud_sequence_sum:
  fixes s :: "'a::{zero,plus,minus,uminus,ord} state"
  assumes "has_key (categories s) cat"
    and "\<forall>(t, a) \<in> set calls. parse_month t = Inr m"
    and "entry_at s m cat = None \<or> entry_at s m cat = Some zero_entry"
  shows "\<exists>s'. run r s (map (\<lambda>(t, a). Bud t cat a) calls) = Inr s' \<and>
          budgeted (entry_or_zero s' m cat) = foldl (+) 0 (map snd calls) \<and>
          available (entry_or_zero s' m cat) = foldl (+) 0 (map snd calls) \<and>
          activity (entry_or_zero s' m cat) = 0 \<and>
          transactions s' = transactions s @
            map (\<lambda>(t, a). \<lparr>month = m, account = None, category = Some cat, amount = a\<rparr>) calls"
proof -
  have z: "entry_or_zero s m cat = zero_entry"
    using assms(3) by (auto simp: entry_or_zero_def)
  show ?thesis
    using run_bud_general [OF assms(1,2), of r] by (simp add: z zero_entry_def)
qed

lemma parse_Mar_2024: "parse_month ''Mar 2024'' = Inr ''2024-03''"
  by code_simp

theorem bud_sequence_sum_witness:
  "has_key (categories checking_food) ''Food'' \<and>
   parse_month ''2024-03'' = Inr ''2024-03'' \<and> parse_month ''Mar 2024'' = Inr ''2024-03'' \<and>
   entry_at checking_food ''2024-03'' ''Food'' = None \<and>
   (\<exists>s'. run py_round2 checking_food
            [Bud ''2024-03'' ''Food'' (Finite 200), Bud ''Mar 2024'' ''Food'' (Finite 50)] = Inr s' \<and>
          budgeted (entry_or_zero s' ''2024-03'' ''Food'') =
            foldl (+) 0 [Finite 200, Finite 50] \<and>
          available (entry_or_zero s' ''2024-03'' ''Food'') =
            foldl (+) 0 [Finite 200, Finite 50])"
proof -
  have k: "has_key (categories checking_food) ''Food''"
    by (simp add: checking_food_def has_key_def)
  have p: "\<forall>(t, a) \<in> set [(''2024-03'', Finite 200), (''Mar 2024'', Finite 50)].
      parse_month t = Inr ''2024-03''"
    by (simp add: parse_2024_03 parse_Mar_2024)
  have e: "entry_at checking_food ''2024-03'' ''Food'' = None"
    by (simp add: checking_food_def entry_at_def)
  show ?thesis
    using bud_sequence_sum [OF k p disjI1 [OF e], of py_round2] k e
      parse_2024_03 parse_Mar_2024
    by auto
qed

subsection \<open>Rolling a month forward\<close>

lemma entry_at_cm: "entry_at s m c = cm_entry (category_month s) m c"
  by (simp add: entry_at_def cm_entry_def)

lemma entry_or_zero_cm: "entry_or_zero s m c = cm_entry_or_zero (category_month s) m c"
  by (simp add: entry_or_zero_def cm_entry_or_zero_def entry_at_cm)

lemma cm_entry_setdefault: "cm_entry (setdefault cmo k []) m c = cm_entry cmo m c"
  by (auto simp: cm_entry_def map_of_setdefault split: option.splits)

lemma cm_entry_update:
  "cm_entry (AList.update t (AList.update c e (dict_get cmo t [])) cmo) m' c' =
     (if m' = t \<and> c' = c then Some e else cm_entry cmo m' c')"
  by (auto simp: cm_entry_def update_conv' dict_get_def split: option.splits)

lemma roll_step:
  "roll_loop f t (c # cs) (cmo, ov) =
     roll_loop f t cs
       (AList.update t
          (AList.update c
             ((cm_entry_or_zero cmo t c)
                \<lparr>available := available (cm_entry_or_zero cmo t c) +
                   py_max (available (cm_entry_or_zero cmo f c)) 0\<rparr>)
             (dict_get cmo t [])) cmo,
        if available (cm_entry_or_zero cmo f c) < 0
        then ov + (- available (cm_entry_or_zero cmo f c)) else ov)"
proof -
  have av: "(case map_of (dict_get cmo f []) c of None \<Rightarrow> 0 | Some prev \<Rightarrow> available prev) =
      available (cm_entry_or_zero cmo f c)"
    by (auto simp: cm_entry_or_zero_def cm_entry_def dict_get_def zero_entry_def
          split: option.splits)
  have dest: "dict_get (dict_get cmo t []) c zero_entry = cm_entry_or_zero cmo t c"
    by (auto simp: cm_entry_or_zero_def cm_entry_def dict_get_def split: option.splits)
  show ?thesis
    by (simp add: Let_def av dest)
qed

lemma roll_loop_entries:
  assumes "distinct cs"
  shows "cm_entry (fst (roll_loop f t cs (cmo, ov))) m' c' =
     (if m' = t \<and> c' \<in> set cs
      then Some ((cm_entry_or_zero cmo t c')
                   \<lparr>available := available (cm_entry_or_zero cmo t c') +
                      py_max (available (cm_entry_or_zero cmo f c')) 0\<rparr>)
      else cm_entry cmo m' c')"
  using assms
proof (induction cs arbitrary: cmo ov)
  case Nil
  then show ?case by simp
next
  case (Cons c cs)
  let ?e = "(cm_entry_or_zero cmo t c)
                \<lparr>available := available (cm_entry_or_zero cmo t c) +
                   py_max (available (cm_entry_or_zero cmo f c)) 0\<rparr>"
  let ?cmo1 = "AList.update t (AList.update c ?e (dict_get cmo t [])) cmo"
  have other: "cm_entry_or_zero ?cmo1 m c'' = cm_entry_or_zero cmo m c''" if "c'' \<noteq> c" for m c''
    using that by (simp add: cm_entry_or_zero_def cm_entry_update)
  from Cons.prems have d: "distinct cs" and n: "c \<notin> set cs" by simp_all
  show ?case
    unfolding roll_step
    using n by (auto simp: Cons.IH [OF d] other cm_entry_update)
qed

lemma roll_loop_overspend:
  assumes "distinct cs"
  shows "snd (roll_loop f t cs (cmo, ov)) =
     foldl (\<lambda>acc av. acc + (- av)) ov
       (filter (\<lambda>av. av < 0) (map (\<lambda>c. available (cm_entry_or_zero cmo f c)) cs))"
  using assms
proof (induction cs arbitrary: cmo ov)
  case Nil
  then show ?case by simp
next
  case (Cons c cs)
  let ?e = "(cm_entry_or_zero cmo t c)
                \<lparr>available := available (cm_entry_or_zero cmo t c) +
                   py_max (available (cm_entry_or_zero cmo f c)) 0\<rparr>"
  let ?cmo1 = "AList.update t (AList.update c ?e (dict_get cmo t [])) cmo"
  from Cons.prems have d: "distinct cs" and n: "c \<notin> set cs" by simp_all
  have same: "map (\<lambda>c. available (cm_entry_or_zero ?cmo1 f c)) cs =
      map (\<lambda>c. available (cm_entry_or_zero cmo f c)) cs"
    using n by (intro map_cong) (auto simp: cm_entry_or_zero_def cm_entry_update)
  show ?case
    unfolding roll_step by (simp add: Cons.IH [OF d] same)
qed


lemma has_key_iff: "has_key d k \<longleftrightarrow> k \<in> set (map fst d)"
  by (simp add: has_key_def map_of_eq_None_iff)

lemma ready_to_assign_setdefault:
  "(case dict_get (setdefault (month_summary s) t None) t None of None \<Rightarrow> 0 | Some v \<Rightarrow> v) =
     ready_to_assign s t"
  by (simp add: ready_to_assign_def dict_get_setdefault)

lemma overspend_sum_cm:
  "overspend_sum s f =
     foldl (\<lambda>acc av. acc + (- av)) 0
       (filter (\<lambda>av. av < 0)
          (map (\<lambda>c. available (cm_entry_or_zero (category_month s) f c)) (map fst (categories s))))"
  by (simp add: overspend_sum_def source_available_def entry_or_zero_cm cong: map_cong)

lemma cm_entry_or_zero_setdefault:
  "cm_entry_or_zero (setdefault cmo k []) m c = cm_entry_or_zero cmo m c"
  by (simp add: cm_entry_or_zero_def cm_entry_setdefault)

lemma cmd_roll_ok:
  fixes s :: "'a::{zero,plus,minus,uminus,ord} state"
  assumes "parse_month frm = Inr f" "parse_month to = Inr t"
    and "distinct (map fst (categories s))"
  shows "cmd_roll s frm to =
     Inr ([Rolled_forward f t (overspend_sum s f)],
          s\<lparr>category_month :=
               fst (roll_loop f t (map fst (categories s))
                      (setdefault (setdefault (category_month s) f []) t [], 0)),
            month_summary :=
               AList.update t (Some (ready_to_assign s t - overspend_sum s f))
                 (setdefault (month_summary s) t None)\<rparr>)"
  using assms
  by (simp add: cmd_roll_def Let_def split_beta ready_to_assign_setdefault
        roll_loop_overspend overspend_sum_cm cm_entry_or_zero_setdefault)

text \<open>
  Claim C1. With valid month texts for the source month \<open>f\<close> and the destination month
  \<open>t\<close>, \<^verbatim>\<open>cmd_roll\<close> gives every registered category the destination entry it had (the
  all-zero entry if it had none) with \<open>available\<close> increased by the carry, which is 0
  when the category's available in \<open>f\<close> is negative and that available otherwise, a
  missing source entry counting as 0; \<open>budgeted\<close> and \<open>activity\<close> stay as they were, and
  no other entry changes. The destination month's \<open>ready_to_assign\<close> becomes its old
  value, 0 if the month had no summary or no such field, minus the overspend: the sum of
  \<open>- available\<close> over the categories whose available in \<open>f\<close> is negative. The keys of
  the category dictionary are distinct, as the keys of a dictionary are.
\<close>

theorem cmd_roll_effect:
  fixes s :: "'a::{zero,plus,minus,uminus,ord} state"
  assumes "parse_month frm = Inr f" "parse_month to = Inr t"
    and "distinct (map fst (categories s))"
  shows "\<exists>s'. cmd_roll s frm to = Inr ([Rolled_forward f t (overspend_sum s f)], s') \<and>
    (\<forall>c. has_key (categories s) c \<longrightarrow>
        entry_at s' t c =
          Some ((entry_or_zero s t c)
                  \<lparr>available := available (entry_or_zero s t c) +
                     (if source_available s f c < 0 then 0 else source_available s f c)\<rparr>)) \<and>
    (\<forall>m' c'. \<not> (m' = t \<and> has_key (categories s) c') \<longrightarrow>
        entry_at s' m' c' = entry_at s m' c') \<and>
    map_of (month_summary s') t = Some (Some (ready_to_assign s t - overspend_sum s f)) \<and>
    (\<forall>m'. m' \<noteq> t \<longrightarrow> map_of (month_summary s') m' = map_of (month_summary s) m') \<and>
    accounts s' = accounts s \<and> categories s' = categories s \<and>
    transactions s' = transactions s"
  unfolding cmd_roll_ok [OF assms]
  by (simp add: entry_at_cm entry_or_zero_cm source_available_def has_key_iff
        roll_loop_entries [OF assms(3)] cm_entry_setdefault cm_entry_or_zero_setdefault
        update_conv' map_of_setdefault py_max_def)

lemma parse_2024_01: "parse_month ''2024-01'' = Inr ''2024-01''"
  by code_simp

lemma parse_2024_02: "parse_month ''2024-02'' = Inr ''2024-02''"
  by code_simp

lemma roll_example_facts:
  "distinct (map fst (categories roll_example))"
  "has_key (categories roll_example) ''Groceries''"
  "has_key (categories roll_example) ''Rent''"
  "entry_or_zero roll_example ''2024-02'' ''Groceries'' = zero_entry"
  "entry_or_zero roll_example ''2024-02'' ''Rent'' =
     \<lparr>budgeted = Finite 10, activity = Finite 0, available = Finite 10\<rparr>"
  "source_available roll_example ''2024-01'' ''Groceries'' = Finite (- 15)"
  "source_available roll_example ''2024-01'' ''Rent'' = Finite 40"
  "ready_to_assign roll_example ''2024-02'' = 0"
  by (simp_all add: roll_example_def has_key_def entry_or_zero_def entry_at_def
        source_available_def ready_to_assign_def dict_get_def)

lemma roll_example_floats:
  "Finite (- 15) < (0 :: pyfloat)" "\<not> Finite 40 < (0 :: pyfloat)"
  "(0 :: pyfloat) + 0 = Finite 0" "Finite 10 + Finite 40 = Finite 50"
  "(0 :: pyfloat) + - Finite (- 15) = Finite 15" "(0 :: pyfloat) - Finite 15 = Finite (- 15)"
  by (simp_all add: zero_pyfloat_def plus_pyfloat_def minus_pyfloat_def uminus_pyfloat_def
        less_pyfloat_def round64_numeral round64_small)

lemma roll_example_categories:
  "map fst (categories roll_example) = [''Groceries'', ''Rent'']"
  by (simp add: roll_example_def)

lemma roll_example_overspend: "overspend_sum roll_example ''2024-01'' = Finite 15"
  unfolding overspend_sum_def roll_example_categories
  by (simp add: roll_example_facts roll_example_floats)

theorem cmd_roll_effect_witness:
  "parse_month ''2024-01'' = Inr ''2024-01'' \<and> parse_month ''2024-02'' = Inr ''2024-02'' \<and>
   distinct (map fst (categories roll_example)) \<and>
   has_key (categories roll_example) ''Groceries'' \<and>
   has_key (categories roll_example) ''Rent'' \<and>
   (\<exists>s'. cmd_roll roll_example ''2024-01'' ''2024-02'' =
            Inr ([Rolled_forward ''2024-01'' ''2024-02'' (Finite 15)], s') \<and>
      entry_at s' ''2024-02'' ''Groceries'' =
        Some \<lparr>budgeted = Finite 0, activity = Finite 0, available = Finite 0\<rparr> \<and>
      entry_at s' ''2024-02'' ''Rent'' =
        Some \<lparr>budgeted = Finite 10, activity = Finite 0, available = Finite 50\<rparr> \<and>
      entry_at s' ''2024-01'' ''Groceries'' =
        Some \<lparr>budgeted = Finite 0, activity = Finite (- 15), available = Finite (- 15)\<rparr> \<and>
      map_of (month_summary s') ''2024-02'' = Some (Some (Finite (- 15))))"
proof -
  note d = roll_example_facts(1) and kg = roll_example_facts(2) and kr = roll_example_facts(3)
  from cmd_roll_effect [OF parse_2024_01 parse_2024_02 d]
  obtain s' where
    r: "cmd_roll roll_example ''2024-01'' ''2024-02'' =
            Inr ([Rolled_forward ''2024-01'' ''2024-02''
                    (overspend_sum roll_example ''2024-01'')], s')"
    and e: "\<forall>c. has_key (categories roll_example) c \<longrightarrow>
        entry_at s' ''2024-02'' c =
          Some ((entry_or_zero roll_example ''2024-02'' c)
                  \<lparr>available := available (entry_or_zero roll_example ''2024-02'' c) +
                     (if source_available roll_example ''2024-01'' c < 0 then 0
                      else source_available roll_example ''2024-01'' c)\<rparr>)"
    and o: "\<forall>m' c'. \<not> (m' = ''2024-02'' \<and> has_key (categories roll_example) c') \<longrightarrow>
        entry_at s' m' c' = entry_at roll_example m' c'"
    and m: "map_of (month_summary s') ''2024-02'' =
        Some (Some (ready_to_assign roll_example ''2024-02'' -
                    overspend_sum roll_example ''2024-01''))"
    by (elim exE conjE) (rule that, assumption+)
  have r': "cmd_roll roll_example ''2024-01'' ''2024-02'' =
            Inr ([Rolled_forward ''2024-01'' ''2024-02'' (Finite 15)], s')"
    using r by (simp add: roll_example_overspend)
  have eg: "entry_at s' ''2024-02'' ''Groceries'' =
        Some \<lparr>budgeted = Finite 0, activity = Finite 0, available = Finite 0\<rparr>"
    using e [rule_format, OF kg]
    by (simp add: roll_example_facts roll_example_floats zero_entry_def)
       (simp add: zero_pyfloat_def)
  have er: "entry_at s' ''2024-02'' ''Rent'' =
        Some \<lparr>budgeted = Finite 10, activity = Finite 0, available = Finite 50\<rparr>"
    using e [rule_format, OF kr]
    by (simp add: roll_example_facts roll_example_floats)
  have n: "\<not> (''2024-01'' = ''2024-02'' \<and> has_key (categories roll_example) ''Groceries'')"
    by simp
  have og: "entry_at s' ''2024-01'' ''Groceries'' =
        Some \<lparr>budgeted = Finite 0, activity = Finite (- 15), available = Finite (- 15)\<rparr>"
    using o [rule_format, OF n] by (simp add: roll_example_def entry_at_def)
  have m': "map_of (month_summary s') ''2024-02'' = Some (Some (Finite (- 15)))"
    using m by (simp add: roll_example_facts roll_example_overspend roll_example_floats)
  have "cmd_roll roll_example ''2024-01'' ''2024-02'' =
            Inr ([Rolled_forward ''2024-01'' ''2024-02'' (Finite 15)], s') \<and>
      entry_at s' ''2024-02'' ''Groceries'' =
        Some \<lparr>budgeted = Finite 0, activity = Finite 0, available = Finite 0\<rparr> \<and>
      entry_at s' ''2024-02'' ''Rent'' =
        Some \<lparr>budgeted = Finite 10, activity = Finite 0, available = Finite 50\<rparr> \<and>
      entry_at s' ''2024-01'' ''Groceries'' =
        Some \<lparr>budgeted = Finite 0, activity = Finite (- 15), available = Finite (- 15)\<rparr> \<and>
      map_of (month_summary s') ''2024-02'' = Some (Some (Finite (- 15)))"
    by (rule conjI [OF r' conjI [OF eg conjI [OF er conjI [OF og m']]]])
  then have ex: "\<exists>s'. cmd_roll roll_example ''2024-01'' ''2024-02'' =
            Inr ([Rolled_forward ''2024-01'' ''2024-02'' (Finite 15)], s') \<and>
      entry_at s' ''2024-02'' ''Groceries'' =
        Some \<lparr>budgeted = Finite 0, activity = Finite 0, available = Finite 0\<rparr> \<and>
      entry_at s' ''2024-02'' ''Rent'' =
        Some \<lparr>budgeted = Finite 10, activity = Finite 0, available = Finite 50\<rparr> \<and>
      entry_at s' ''2024-01'' ''Groceries'' =
        Some \<lparr>budgeted = Finite 0, activity = Finite (- 15), available = Finite (- 15)\<rparr> \<and>
      map_of (month_summary s') ''2024-02'' = Some (Some (Finite (- 15)))"
    by (rule exI [of _ s'])
  show ?thesis
    by (rule conjI [OF parse_2024_01 conjI [OF parse_2024_02 conjI [OF d conjI [OF kg
          conjI [OF kr ex]]]]])
qed

subsection \<open>Adding categories\<close>

lemma parts_ABC: "map strip (split_on CHR '':'' ''A:B:C'') = [''A'', ''B'', ''C'']"
  by (simp add: strip_def is_space_def)

text \<open>
  Claim C8. On a ledger whose category dictionary is empty, \<^verbatim>\<open>cmd_cat\<close> with \<^verbatim>\<open>"A:B:C"\<close>
  prints that \<open>A\<close>, \<open>A:B\<close> and \<open>A:B:C\<close> were added and leaves exactly these three
  categories, with parents none, \<open>A\<close> and \<open>A:B\<close>. The same call on the resulting ledger
  changes nothing and prints only that \<open>A:B:C\<close> already exists.
\<close>

theorem cmd_cat_chain:
  "cmd_cat (s\<lparr>categories := []\<rparr>) ''A:B:C'' =
     Inr ([Category_added ''A'', Category_added ''A:B'', Category_added ''A:B:C''],
          s\<lparr>categories := [(''A'', None), (''A:B'', Some ''A''), (''A:B:C'', Some ''A:B'')]\<rparr>)
   \<and> cmd_cat (s\<lparr>categories := [(''A'', None), (''A:B'', Some ''A''), (''A:B:C'', Some ''A:B'')]\<rparr>)
         ''A:B:C'' =
     Inr ([Category_already_exists ''A:B:C''],
          s\<lparr>categories := [(''A'', None), (''A:B'', Some ''A''), (''A:B:C'', Some ''A:B'')]\<rparr>)"
  unfolding cmd_cat_def parts_ABC by (simp add: has_key_def Let_def)

subsection \<open>The end-to-end scenario and the report\<close>

lemma float_facts2:
  "Finite 500 - Finite 200 = Finite 300"
  by (simp_all add: zero_pyfloat_def plus_pyfloat_def minus_pyfloat_def uminus_pyfloat_def
        round64_numeral)

lemma end_to_end_steps:
  "cmd_acc (fresh_state :: pyfloat state) ''Checking'' ''bank'' =
     Inr ([Account_added ''Checking'' ''bank''],
          \<lparr>accounts = [(''Checking'', ''bank'')], categories = [], month_summary = [],
           category_month = [], transactions = []\<rparr>)"
  "cmd_cat \<lparr>accounts = [(''Checking'', ''bank'')], categories = [], month_summary = [],
           category_month = [], transactions = [] :: pyfloat txn list\<rparr> ''Food'' =
     Inr ([Category_added ''Food''], checking_food)"
  "cmd_tbb py_round2 checking_food ''2024-03'' (Finite 500) =
     Inr ([TBB_set ''2024-03'' (Finite 500)],
          \<lparr>accounts = [(''Checking'', ''bank'')], categories = [(''Food'', None)],
           month_summary = [(''2024-03'', Some (Finite 500))],
           category_month = [], transactions = []\<rparr>)"
  "cmd_bud \<lparr>accounts = [(''Checking'', ''bank'')], categories = [(''Food'', None)],
           month_summary = [(''2024-03'', Some (Finite 500))],
           category_month = [], transactions = []\<rparr> ''2024-03'' ''Food'' (Finite 200) =
     Inr ([Budgeted (Finite 200) ''Food'' ''2024-03''],
          \<lparr>accounts = [(''Checking'', ''bank'')], categories = [(''Food'', None)],
           month_summary = [(''2024-03'', Some (Finite 500))],
           category_month =
             [(''2024-03'',
               [(''Food'', \<lparr>budgeted = Finite 200, activity = 0, available = Finite 200\<rparr>)])],
           transactions =
             [\<lparr>month = ''2024-03'', account = None, category = Some ''Food'',
               amount = Finite 200\<rparr>]\<rparr>)"
  "cmd_spend \<lparr>accounts = [(''Checking'', ''bank'')], categories = [(''Food'', None)],
           month_summary = [(''2024-03'', Some (Finite 500))],
           category_month =
             [(''2024-03'',
               [(''Food'', \<lparr>budgeted = Finite 200, activity = 0, available = Finite 200\<rparr>)])],
           transactions =
             [\<lparr>month = ''2024-03'', account = None, category = Some ''Food'',
               amount = Finite 200\<rparr>]\<rparr> ''2024-03'' ''Checking'' ''Food'' (Finite 50) =
     Inr ([Spent (Finite 50) ''Checking'' ''Food'' ''2024-03''], after_end_to_end)"
proof -
  show "cmd_acc (fresh_state :: pyfloat state) ''Checking'' ''bank'' =
     Inr ([Account_added ''Checking'' ''bank''],
          \<lparr>accounts = [(''Checking'', ''bank'')], categories = [], month_summary = [],
           category_month = [], transactions = []\<rparr>)"
    by (simp add: cmd_acc_def has_key_def fresh_state_def)
  show "cmd_cat \<lparr>accounts = [(''Checking'', ''bank'')], categories = [], month_summary = [],
           category_month = [], transactions = [] :: pyfloat txn list\<rparr> ''Food'' =
     Inr ([Category_added ''Food''], checking_food)"
    by (simp add: cmd_cat_def has_key_def strip_def is_space_def Let_def checking_food_def)
  show "cmd_tbb py_round2 checking_food ''2024-03'' (Finite 500) =
     Inr ([TBB_set ''2024-03'' (Finite 500)],
          \<lparr>accounts = [(''Checking'', ''bank'')], categories = [(''Food'', None)],
           month_summary = [(''2024-03'', Some (Finite 500))],
           category_month = [], transactions = []\<rparr>)"
    by (simp add: cmd_tbb_def parse_2024_03 float_facts setdefault_def checking_food_def
          del: py_round2.simps)
  show "cmd_bud \<lparr>accounts = [(''Checking'', ''bank'')], categories = [(''Food'', None)],
           month_summary = [(''2024-03'', Some (Finite 500))],
           category_month = [], transactions = []\<rparr> ''2024-03'' ''Food'' (Finite 200) =
     Inr ([Budgeted (Finite 200) ''Food'' ''2024-03''],
          \<lparr>accounts = [(''Checking'', ''bank'')], categories = [(''Food'', None)],
           month_summary = [(''2024-03'', Some (Finite 500))],
           category_month =
             [(''2024-03'',
               [(''Food'', \<lparr>budgeted = Finite 200, activity = 0, available = Finite 200\<rparr>)])],
           transactions =
             [\<lparr>month = ''2024-03'', account = None, category = Some ''Food'',
               amount = Finite 200\<rparr>]\<rparr>)"
    by (simp add: cmd_bud_def parse_2024_03 float_facts setdefault_def has_key_def
          get_cat_entry_def put_cat_entry_def dict_get_def zero_entry_def Let_def)
  show "cmd_spend \<lparr>accounts = [(''Checking'', ''bank'')], categories = [(''Food'', None)],
           month_summary = [(''2024-03'', Some (Finite 500))],
           category_month =
             [(''2024-03'',
               [(''Food'', \<lparr>budgeted = Finite 200, activity = 0, available = Finite 200\<rparr>)])],
           transactions =
             [\<lparr>month = ''2024-03'', account = None, category = Some ''Food'',
               amount = Finite 200\<rparr>]\<rparr> ''2024-03'' ''Checking'' ''Food'' (Finite 50) =
     Inr ([Spent (Finite 50) ''Checking'' ''Food'' ''2024-03''], after_end_to_end)"
    by (simp add: cmd_spend_def parse_2024_03 float_facts setdefault_def has_key_def
          get_cat_entry_def put_cat_entry_def dict_get_def zero_entry_def Let_def
          after_end_to_end_def)
qed

lemma end_to_end_state: "run py_round2 fresh_state end_to_end = Inr after_end_to_end"
  by (simp add: end_to_end_def end_to_end_steps)

text \<open>
  Claim C6. The five commands of the scenario, run from the empty ledger, leave the
  \<open>Food\<close> entry of 2024-03 at \<open>{budgeted = 200, activity = -50, available = 150}\<close>, and
  \<open>ready_to_assign - budgeted\<close> is 300 in that ledger. The report for 2024-03 does not
  print it: \<^verbatim>\<open>cmd_rep\<close> raises \<^verbatim>\<open>NameError\<close>.
\<close>

theorem report_raises:
  "run py_round2 fresh_state end_to_end = Inr after_end_to_end \<and>
   entry_at after_end_to_end ''2024-03'' ''Food'' =
     Some \<lparr>budgeted = Finite 200, activity = Finite (- 50), available = Finite 150\<rparr> \<and>
   ready_to_assign after_end_to_end ''2024-03'' -
     budgeted (entry_or_zero after_end_to_end ''2024-03'' ''Food'') = Finite 300 \<and>
   cmd_rep after_end_to_end ''2024-03'' = Inl NameError"
  by (simp add: end_to_end_state cmd_rep_def)
     (simp add: after_end_to_end_def entry_at_def entry_or_zero_def ready_to_assign_def
        dict_get_def float_facts2)

subsection \<open>The balance of an entry\<close>

lemma set_update_subset: "set (AList.update k v al) \<subseteq> insert (k, v) (set al)"
  by (induction al) auto

lemma set_setdefault_subset: "set (setdefault d k v) \<subseteq> insert (k, v) (set d)"
  by (auto simp: setdefault_def split: option.splits)

lemma in_set_updateD: "x \<in> set (AList.update k v al) \<Longrightarrow> x = (k, v) \<or> x \<in> set al"
  using set_update_subset [of k v al] by auto

lemma in_set_setdefaultD: "x \<in> set (setdefault d k v) \<Longrightarrow> x = (k, v) \<or> x \<in> set d"
  using set_setdefault_subset [of d k v] by auto

lemma dict_get_cases: "dict_get d k dflt = dflt \<or> (k, dict_get d k dflt) \<in> set d"
  by (auto simp: dict_get_def split: option.splits dest: map_of_SomeD)

lemma settled_zero: "settled zero_entry"
  by (simp add: settled_def zero_entry_def zero_pyfloat_def round64_small)

lemma settled_balanced: "settled e \<Longrightarrow> balanced e"
  by (auto simp: settled_def balanced_def plus_pyfloat_def)

lemma exact_addE:
  assumes "exact_add x y"
  obtains a b where "x = Finite a" "y = Finite b" "round64 (a + b) = Finite (a + b)"
  using assms by (cases x; cases y) (simp_all add: plus_pyfloat_def)

lemma exact_subE:
  assumes "exact_sub x y"
  obtains a b where "x = Finite a" "y = Finite b" "round64 (a - b) = Finite (a - b)"
  using assms by (cases x; cases y) (simp_all add: minus_pyfloat_def)

lemma settled_bud:
  assumes "settled e" "exact_add (budgeted e) amt" "exact_add (available e) amt"
  shows "settled (e\<lparr>budgeted := budgeted e + amt, available := available e + amt\<rparr>)"
proof -
  from assms(1) obtain b a where
    e: "budgeted e = Finite b" "activity e = Finite a" "available e = Finite (b + a)"
    by (auto simp: settled_def)
  from assms(2) e(1) obtain x where x: "amt = Finite x" and rb: "round64 (b + x) = Finite (b + x)"
    by (auto elim: exact_addE)
  from assms(3) e(3) x have rv: "round64 (b + a + x) = Finite (b + a + x)"
    by (simp add: plus_pyfloat_def)
  have s: "b + x + a = b + a + x"
    by simp
  show ?thesis
    unfolding settled_def
    by (rule exI [of _ "b + x"], rule exI [of _ a])
       (simp add: e x plus_pyfloat_def rb rv s)
qed

lemma settled_spend:
  assumes "settled e" "exact_sub (activity e) amt" "exact_sub (available e) amt"
  shows "settled (e\<lparr>activity := activity e - amt, available := available e - amt\<rparr>)"
proof -
  from assms(1) obtain b a where
    e: "budgeted e = Finite b" "activity e = Finite a" "available e = Finite (b + a)"
    by (auto simp: settled_def)
  from assms(2) e(2) obtain x where x: "amt = Finite x" and ra: "round64 (a - x) = Finite (a - x)"
    by (auto elim: exact_subE)
  from assms(3) e(3) x have rv: "round64 (b + a - x) = Finite (b + a - x)"
    by (simp add: minus_pyfloat_def)
  have s: "b + (a - x) = b + a - x"
    by simp
  have m: "Finite a - Finite x = Finite (a - x)" "Finite (b + a) - Finite x = Finite (b + a - x)"
    using ra rv by (simp_all add: minus_pyfloat_def)
  show ?thesis
    unfolding settled_def
    by (rule exI [of _ b], rule exI [of _ "a - x"])
       (simp add: e x m rv s)
qed

lemma month_dict_settled:
  assumes "entries_settled s"
  shows "\<forall>(c, e) \<in> set (dict_get (category_month s) m []). settled e"
  using assms dict_get_cases [of "category_month s" m "[]"]
  by (auto simp: entries_settled_def)

lemma get_cat_entry_settled:
  assumes "entries_settled s"
  shows "entries_settled (snd (get_cat_entry s m cat))"
    and "settled (fst (get_cat_entry s m cat))"
proof -
  let ?cm = "dict_get (category_month s) m []"
  have cm: "\<forall>(c, e) \<in> set ?cm. settled e"
    by (rule month_dict_settled [OF assms])
  have cm': "\<forall>(c, e) \<in> set (setdefault ?cm cat zero_entry). settled e"
    using cm settled_zero by (auto dest!: in_set_setdefaultD)
  have outer: "\<forall>(m', d) \<in> set (setdefault (category_month s) m []). \<forall>(c, e) \<in> set d. settled e"
    using assms by (auto simp: entries_settled_def dest!: in_set_setdefaultD)
  show "entries_settled (snd (get_cat_entry s m cat))"
    using cm' outer
    by (auto simp: entries_settled_def get_cat_entry_def Let_def dest!: in_set_updateD)
  show "settled (fst (get_cat_entry s m cat))"
    using cm dict_get_cases [of ?cm cat zero_entry] settled_zero
    by (auto simp: get_cat_entry_def Let_def)
qed

lemma put_cat_entry_settled:
  assumes "entries_settled s" "settled e"
  shows "entries_settled (put_cat_entry s m cat e)"
proof -
  let ?cm = "dict_get (category_month s) m []"
  have cm: "\<forall>(c, e) \<in> set ?cm. settled e"
    by (rule month_dict_settled [OF assms(1)])
  show ?thesis
    using cm assms
    by (auto simp: entries_settled_def put_cat_entry_def dest!: in_set_updateD)
qed

lemma cmd_bud_settled:
  assumes "entries_settled s" "exact_step s (Bud mon cat amt)"
    and "cmd_bud s mon cat amt = Inr (out, s')"
  shows "entries_settled s'"
proof (cases "parse_month mon")
  case (Inl e)
  then show ?thesis
    using assms(3) by (simp add: cmd_bud_def)
next
  case (Inr m)
  show ?thesis
  proof (cases "has_key (categories s) cat")
    case False
    then have "s' = s"
      using assms(3) Inr by (simp add: cmd_bud_def)
    then show ?thesis
      using assms(1) by simp
  next
    case True
    let ?e = "entry_or_zero s m cat"
    let ?s1 = "snd (get_cat_entry s m cat)"
    let ?e2 = "?e\<lparr>budgeted := budgeted ?e + amt, available := available ?e + amt\<rparr>"
    have "exact_add (budgeted ?e) amt \<and> exact_add (available ?e) amt"
      using assms(2) by (simp add: Inr True fst_get_cat_entry)
    then have x: "exact_add (budgeted ?e) amt" "exact_add (available ?e) amt"
      by simp_all
    have se: "settled ?e"
      using get_cat_entry_settled(2) [OF assms(1), of m cat] by (simp add: fst_get_cat_entry)
    have st: "settled ?e2"
      by (rule settled_bud [OF se x])
    have p: "entries_settled (put_cat_entry ?s1 m cat ?e2)"
      by (rule put_cat_entry_settled [OF get_cat_entry_settled(1) [OF assms(1)] st])
    have "Inr ([Budgeted amt cat m],
            (put_cat_entry ?s1 m cat ?e2)\<lparr>transactions := transactions s @
               [\<lparr>month = m, account = None, category = Some cat, amount = amt\<rparr>]\<rparr>) =
          (Inr (out, s') :: pyfloat outcome)"
      using assms(3) unfolding cmd_bud_ok [OF Inr True] .
    then have "s' = (put_cat_entry ?s1 m cat ?e2)\<lparr>transactions := transactions s @
               [\<lparr>month = m, account = None, category = Some cat, amount = amt\<rparr>]\<rparr>"
      by simp
    then have "category_month s' = category_month (put_cat_entry ?s1 m cat ?e2)"
      by simp
    then show ?thesis
      using p by (simp only: entries_settled_def)
  qed
qed

lemma cmd_spend_settled:
  assumes "entries_settled s" "exact_step s (Spend mon acc cat amt)"
    and "cmd_spend s mon acc cat amt = Inr (out, s')"
  shows "entries_settled s'"
proof (cases "parse_month mon")
  case (Inl e)
  then show ?thesis
    using assms(3) by (simp add: cmd_spend_def)
next
  case (Inr m)
  show ?thesis
  proof (cases "has_key (accounts s) acc \<and> has_key (categories s) cat")
    case False
    then have "cmd_spend s mon acc cat amt = Inr ([Account_not_found acc], s) \<or>
               cmd_spend s mon acc cat amt = Inr ([Category_not_found cat], s)"
      using Inr by (simp add: cmd_spend_def)
    then have "s' = s"
      using assms(3) by auto
    then show ?thesis
      using assms(1) by simp
  next
    case True
    then have ka: "has_key (accounts s) acc" and kc: "has_key (categories s) cat"
      by simp_all
    let ?e = "entry_or_zero s m cat"
    let ?s1 = "snd (get_cat_entry s m cat)"
    let ?e2 = "?e\<lparr>activity := activity ?e - amt, available := available ?e - amt\<rparr>"
    have "exact_sub (activity ?e) amt \<and> exact_sub (available ?e) amt"
      using assms(2) by (simp add: Inr ka kc fst_get_cat_entry)
    then have x: "exact_sub (activity ?e) amt" "exact_sub (available ?e) amt"
      by simp_all
    have se: "settled ?e"
      using get_cat_entry_settled(2) [OF assms(1), of m cat] by (simp add: fst_get_cat_entry)
    have st: "settled ?e2"
      by (rule settled_spend [OF se x])
    have p: "entries_settled (put_cat_entry ?s1 m cat ?e2)"
      by (rule put_cat_entry_settled [OF get_cat_entry_settled(1) [OF assms(1)] st])
    have "Inr ([Spent amt acc cat m],
            (put_cat_entry ?s1 m cat ?e2)\<lparr>transactions := transactions s @
               [\<lparr>month = m, account = Some acc, category = Some cat, amount = - amt\<rparr>]\<rparr>) =
          (Inr (out, s') :: pyfloat outcome)"
      using assms(3) unfolding cmd_spend_ok [OF Inr ka kc] .
    then have "s' = (put_cat_entry ?s1 m cat ?e2)\<lparr>transactions := transactions s @
               [\<lparr>month = m, account = Some acc, category = Some cat, amount = - amt\<rparr>]\<rparr>"
      by simp
    then have "category_month s' = category_month (put_cat_entry ?s1 m cat ?e2)"
      by simp
    then show ?thesis
      using p by (simp only: entries_settled_def)
  qed
qed

lemma exec_settled:
  assumes "entries_settled s" "engine_command c" "exact_step s c"
    and "exec py_round2 s c = Inr (out, s')"
  shows "entries_settled s'"
proof (cases c)
  case (Bud mon cat amt)
  then show ?thesis
    using assms cmd_bud_settled [of s mon cat amt out s'] by simp
next
  case (Spend mon acc cat amt)
  then show ?thesis
    using assms cmd_spend_settled [of s mon acc cat amt out s'] by simp
qed (use assms in \<open>auto simp: cmd_acc_def cmd_cat_def cmd_tbb_def cmd_xfer_def Let_def
        entries_settled_def split_beta split: sum.splits if_splits\<close>)

lemma run_settled:
  assumes "entries_settled s" "list_all engine_command cmds" "exact_run s cmds"
    and "run py_round2 s cmds = Inr s'"
  shows "entries_settled s'"
  using assms
proof (induction cmds arbitrary: s)
  case Nil
  then show ?case by simp
next
  case (Cons c cmds)
  from Cons.prems(4) obtain out s1 where
    e: "exec py_round2 s c = Inr (out, s1)" and r: "run py_round2 s1 cmds = Inr s'"
    by (auto split: sum.splits)
  from Cons.prems(2) have c: "engine_command c" and cs: "list_all engine_command cmds"
    by simp_all
  from Cons.prems(3) e have x: "exact_step s c" and xs: "exact_run s1 cmds"
    by simp_all
  show ?case
    by (rule Cons.IH [OF exec_settled [OF Cons.prems(1) c x e] cs xs r])
qed

lemma entries_settled_balanced: "entries_settled s \<Longrightarrow> entries_balanced s"
  by (fastforce simp: entries_settled_def entries_balanced_def intro: settled_balanced)

text \<open>
  Claim C10, for the runs whose entry arithmetic is exact. Take a sequence of \<^verbatim>\<open>cmd_acc\<close>,
  \<^verbatim>\<open>cmd_cat\<close>, \<^verbatim>\<open>cmd_tbb\<close>, \<^verbatim>\<open>cmd_bud\<close>, \<^verbatim>\<open>cmd_spend\<close> and \<^verbatim>\<open>cmd_xfer\<close> calls, run with the
  code's floats from the empty ledger, in which every addition that \<^verbatim>\<open>cmd_bud\<close> makes to
  \<open>budgeted\<close> and \<open>available\<close>, and every subtraction that \<^verbatim>\<open>cmd_spend\<close> makes from
  \<open>activity\<close> and \<open>available\<close>, has finite operands and a float result equal to the sum or
  difference as numbers. Then every stored entry of the ledger that is reached has
  \<open>available = budgeted + activity\<close> in float arithmetic.
\<close>

theorem balanced_when_exact:
  assumes "list_all engine_command cmds" "exact_run fresh_state cmds"
    and "run py_round2 fresh_state cmds = Inr s"
  shows "entries_balanced s"
proof -
  have "entries_settled fresh_state"
    by (simp add: entries_settled_def fresh_state_def)
  then have "entries_settled s"
    using assms by (rule run_settled)
  then show ?thesis
    by (rule entries_settled_balanced)
qed

lemma end_to_end_exact: "exact_run fresh_state end_to_end"
  by (simp add: end_to_end_def end_to_end_steps end_to_end_steps(5) [unfolded zero_pyfloat_def]
        parse_2024_03 has_key_def
        get_cat_entry_def dict_get_def zero_entry_def Let_def zero_pyfloat_def
        plus_pyfloat_def minus_pyfloat_def round64_numeral
        del: py_round2.simps)

theorem balanced_when_exact_witness:
  "list_all engine_command end_to_end \<and> exact_run fresh_state end_to_end \<and>
   run py_round2 fresh_state end_to_end = Inr after_end_to_end \<and>
   entries_balanced after_end_to_end \<and>
   entry_at after_end_to_end ''2024-03'' ''Food'' =
     Some \<lparr>budgeted = Finite 200, activity = Finite (- 50), available = Finite 150\<rparr>"
proof -
  have c: "list_all engine_command end_to_end"
    by (simp add: end_to_end_def)
  have e: "entry_at after_end_to_end ''2024-03'' ''Food'' =
     Some \<lparr>budgeted = Finite 200, activity = Finite (- 50), available = Finite 150\<rparr>"
    by (simp add: after_end_to_end_def entry_at_def)
  show ?thesis
    by (rule conjI [OF c conjI [OF end_to_end_exact conjI [OF end_to_end_state
          conjI [OF balanced_when_exact [OF c end_to_end_exact end_to_end_state] e]]]])
qed

lemma setup_steps:
  "cmd_acc (fresh_state :: 'a state) ''Checking'' ''bank'' =
     Inr ([Account_added ''Checking'' ''bank''],
          \<lparr>accounts = [(''Checking'', ''bank'')], categories = [], month_summary = [],
           category_month = [], transactions = []\<rparr>)"
  "cmd_cat \<lparr>accounts = [(''Checking'', ''bank'')], categories = [], month_summary = [],
           category_month = [], transactions = [] :: 'a txn list\<rparr> ''Food'' =
     Inr ([Category_added ''Food''],
          \<lparr>accounts = [(''Checking'', ''bank'')], categories = [(''Food'', None)],
           month_summary = [], category_month = [], transactions = []\<rparr>)"
  by (simp_all add: cmd_acc_def has_key_def fresh_state_def cmd_cat_def strip_def is_space_def
        Let_def)

lemma drift_state: "run py_round2 fresh_state drift = Inr after_drift"
proof -
  have 3: "cmd_bud \<lparr>accounts = [(''Checking'', ''bank'')], categories = [(''Food'', None)],
           month_summary = [], category_month = [], transactions = []\<rparr>
         ''2024-03'' ''Food'' (Finite 10000000000000000) =
     Inr ([Budgeted (Finite 10000000000000000) ''Food'' ''2024-03''],
          \<lparr>accounts = [(''Checking'', ''bank'')], categories = [(''Food'', None)],
           month_summary = [],
           category_month =
             [(''2024-03'',
               [(''Food'', \<lparr>budgeted = Finite 10000000000000000, activity = 0,
                            available = Finite 10000000000000000\<rparr>)])],
           transactions =
             [\<lparr>month = ''2024-03'', account = None, category = Some ''Food'',
               amount = Finite 10000000000000000\<rparr>]\<rparr>)"
    by (simp add: cmd_bud_def parse_2024_03 big_float_facts setdefault_def has_key_def
          get_cat_entry_def put_cat_entry_def dict_get_def zero_entry_def Let_def)
  have 4: "cmd_spend \<lparr>accounts = [(''Checking'', ''bank'')], categories = [(''Food'', None)],
           month_summary = [],
           category_month =
             [(''2024-03'',
               [(''Food'', \<lparr>budgeted = Finite 10000000000000000, activity = 0,
                            available = Finite 10000000000000000\<rparr>)])],
           transactions =
             [\<lparr>month = ''2024-03'', account = None, category = Some ''Food'',
               amount = Finite 10000000000000000\<rparr>]\<rparr>
         ''2024-03'' ''Checking'' ''Food'' (Finite 10000000000000000) =
     Inr ([Spent (Finite 10000000000000000) ''Checking'' ''Food'' ''2024-03''],
          \<lparr>accounts = [(''Checking'', ''bank'')], categories = [(''Food'', None)],
           month_summary = [],
           category_month =
             [(''2024-03'',
               [(''Food'', \<lparr>budgeted = Finite 10000000000000000,
                            activity = Finite (- 10000000000000000), available = Finite 0\<rparr>)])],
           transactions =
             [\<lparr>month = ''2024-03'', account = None, category = Some ''Food'',
               amount = Finite 10000000000000000\<rparr>,
              \<lparr>month = ''2024-03'', account = Some ''Checking'', category = Some ''Food'',
               amount = Finite (- 10000000000000000)\<rparr>]\<rparr>)"
    by (simp add: cmd_spend_def parse_2024_03 big_float_facts setdefault_def has_key_def
          get_cat_entry_def put_cat_entry_def dict_get_def zero_entry_def Let_def
          uminus_pyfloat_def)
  have 5: "cmd_bud \<lparr>accounts = [(''Checking'', ''bank'')], categories = [(''Food'', None)],
           month_summary = [],
           category_month =
             [(''2024-03'',
               [(''Food'', \<lparr>budgeted = Finite 10000000000000000,
                            activity = Finite (- 10000000000000000), available = Finite 0\<rparr>)])],
           transactions =
             [\<lparr>month = ''2024-03'', account = None, category = Some ''Food'',
               amount = Finite 10000000000000000\<rparr>,
              \<lparr>month = ''2024-03'', account = Some ''Checking'', category = Some ''Food'',
               amount = Finite (- 10000000000000000)\<rparr>]\<rparr>
         ''2024-03'' ''Food'' (Finite 1) =
     Inr ([Budgeted (Finite 1) ''Food'' ''2024-03''], after_drift)"
    by (simp add: cmd_bud_def parse_2024_03 big_float_facts setdefault_def has_key_def
          get_cat_entry_def put_cat_entry_def dict_get_def zero_entry_def Let_def
          after_drift_def)
  show ?thesis
    by (simp add: drift_def setup_steps 3 4 5)
qed

text \<open>
  Claim C10, as stated for the code. The amounts of the code are binary floats, and there
  the equation fails: budgeting \<open>10\<^sup>1\<^sup>6\<close>, spending \<open>10\<^sup>1\<^sup>6\<close> and budgeting 1 leaves
  \<open>budgeted = 10\<^sup>1\<^sup>6\<close> (the sum \<open>10\<^sup>1\<^sup>6 + 1\<close> rounds to \<open>10\<^sup>1\<^sup>6\<close>),
  \<open>activity = -10\<^sup>1\<^sup>6\<close> and \<open>available = 1\<close>.
\<close>

theorem balanced_float_counterexample:
  "list_all engine_command drift \<and> run py_round2 fresh_state drift = Inr after_drift \<and>
   \<not> entries_balanced after_drift"
  by (simp add: drift_state)
     (simp add: drift_def after_drift_def entries_balanced_def balanced_def big_float_facts)

subsection \<open>Rounding of stored amounts\<close>

lemma quotient_of_eighth: "quotient_of (1 / 8) = (1, 8)" by code_simp
lemma quotient_of_0_12: "quotient_of (3 / 25) = (3, 25)" by code_simp
lemma floor_log2_eighth: "floor_log2 (1 / 8) = - 3"
  by (simp add: floor_log2_def quotient_of_eighth compute_floorlog pow2_def)
lemma floor_log2_0_12: "floor_log2 (3 / 25) = - 4"
  by (simp add: floor_log2_def quotient_of_0_12 compute_floorlog pow2_def)

lemma floor_numeral_div: "\<lfloor>(numeral a :: rat) / numeral b\<rfloor> = numeral a div numeral b"
  using floor_divide_of_int_eq [of "numeral a" "numeral b", where ?'a = rat] by simp

lemma round64_eighth: "round64 (1 / 8) = Finite (1 / 8)"
  by (simp add: round64_def floor_log2_eighth pow2_def Let_def round_half_even_numeral)

lemma round_half_even_12_5: "round_half_even (25 / 2) = 12"
  by (simp add: round_half_even_def Let_def floor_numeral_div)

lemma round64_0_12: "round64 (3 / 25) = Finite (1080863910568919 / 9007199254740992)"
  by (simp add: round64_def floor_log2_0_12 pow2_def Let_def round_half_even_def
        floor_numeral_div)

lemma py_round2_eighth: "py_round2 (Finite (1 / 8)) = Finite (1080863910568919 / 9007199254740992)"
  using round64_0_12 by (simp add: round_half_even_12_5)


lemma eighth_float_facts:
  "(0::pyfloat) + Finite (1 / 8) = Finite (1 / 8)"
  "(0::pyfloat) - Finite (1 / 8) = Finite (- (1 / 8))"
  "- Finite (1 / 8) = Finite (- (1 / 8))"
  by (simp_all add: zero_pyfloat_def plus_pyfloat_def minus_pyfloat_def uminus_pyfloat_def
        round64_eighth round64_def floor_log2_eighth pow2_def Let_def round_half_even_numeral)

text \<open>
  Claim C5. \<^verbatim>\<open>cmd_tbb\<close> stores \<^verbatim>\<open>round(amt, 2)\<close>: for the amount 0.125 it stores the float
  nearest to 0.12. \<^verbatim>\<open>cmd_bud\<close> and \<^verbatim>\<open>cmd_spend\<close> do not round: for the amount 0.125 the
  entry fields and the amount of the appended transaction are 0.125 (or -0.125), which
  is not a value rounded to two fractional digits.
\<close>

theorem bud_spend_store_unrounded:
  "py_round2 (Finite (1 / 8)) = Finite (1080863910568919 / 9007199254740992) \<and>
   py_round2 (Finite (1 / 8)) \<noteq> Finite (1 / 8) \<and>
   cmd_tbb py_round2 checking_food ''2024-03'' (Finite (1 / 8)) =
     Inr ([TBB_set ''2024-03'' (Finite (1 / 8))],
          checking_food\<lparr>month_summary :=
            [(''2024-03'', Some (Finite (1080863910568919 / 9007199254740992)))]\<rparr>) \<and>
   cmd_bud checking_food ''2024-03'' ''Food'' (Finite (1 / 8)) =
     Inr ([Budgeted (Finite (1 / 8)) ''Food'' ''2024-03''],
          checking_food\<lparr>category_month :=
            [(''2024-03'',
              [(''Food'', \<lparr>budgeted = Finite (1 / 8), activity = 0,
                           available = Finite (1 / 8)\<rparr>)])],
            transactions :=
              [\<lparr>month = ''2024-03'', account = None, category = Some ''Food'',
                amount = Finite (1 / 8)\<rparr>]\<rparr>) \<and>
   cmd_spend checking_food ''2024-03'' ''Checking'' ''Food'' (Finite (1 / 8)) =
     Inr ([Spent (Finite (1 / 8)) ''Checking'' ''Food'' ''2024-03''],
          checking_food\<lparr>category_month :=
            [(''2024-03'',
              [(''Food'', \<lparr>budgeted = 0, activity = Finite (- (1 / 8)),
                           available = Finite (- (1 / 8))\<rparr>)])],
            transactions :=
              [\<lparr>month = ''2024-03'', account = Some ''Checking'', category = Some ''Food'',
                amount = Finite (- (1 / 8))\<rparr>]\<rparr>)"
proof -
  have r: "py_round2 (Finite (1 / 8)) = Finite (1080863910568919 / 9007199254740992)"
    by (rule py_round2_eighth)
  have n: "py_round2 (Finite (1 / 8)) \<noteq> Finite (1 / 8)"
    unfolding r by simp
  have t: "cmd_tbb py_round2 checking_food ''2024-03'' (Finite (1 / 8)) =
     Inr ([TBB_set ''2024-03'' (Finite (1 / 8))],
          checking_food\<lparr>month_summary :=
            [(''2024-03'', Some (Finite (1080863910568919 / 9007199254740992)))]\<rparr>)"
    by (simp add: cmd_tbb_def parse_2024_03 r setdefault_def checking_food_def
          del: py_round2.simps)
  have b: "cmd_bud checking_food ''2024-03'' ''Food'' (Finite (1 / 8)) =
     Inr ([Budgeted (Finite (1 / 8)) ''Food'' ''2024-03''],
          checking_food\<lparr>category_month :=
            [(''2024-03'',
              [(''Food'', \<lparr>budgeted = Finite (1 / 8), activity = 0,
                           available = Finite (1 / 8)\<rparr>)])],
            transactions :=
              [\<lparr>month = ''2024-03'', account = None, category = Some ''Food'',
                amount = Finite (1 / 8)\<rparr>]\<rparr>)"
    by (simp add: cmd_bud_def parse_2024_03 eighth_float_facts setdefault_def has_key_def
          get_cat_entry_def put_cat_entry_def dict_get_def zero_entry_def Let_def
          checking_food_def)
  have s: "cmd_spend checking_food ''2024-03'' ''Checking'' ''Food'' (Finite (1 / 8)) =
     Inr ([Spent (Finite (1 / 8)) ''Checking'' ''Food'' ''2024-03''],
          checking_food\<lparr>category_month :=
            [(''2024-03'',
              [(''Food'', \<lparr>budgeted = 0, activity = Finite (- (1 / 8)),
                           available = Finite (- (1 / 8))\<rparr>)])],
            transactions :=
              [\<lparr>month = ''2024-03'', account = Some ''Checking'', category = Some ''Food'',
                amount = Finite (- (1 / 8))\<rparr>]\<rparr>)"
    by (simp add: cmd_spend_def parse_2024_03 eighth_float_facts setdefault_def has_key_def
          get_cat_entry_def put_cat_entry_def dict_get_def zero_entry_def Let_def
          checking_food_def)
  show ?thesis
    by (rule conjI [OF r conjI [OF n conjI [OF t conjI [OF b s]]]])
qed

end
